theory Spec2Isabelle
  imports Main "HOL-Library.Word" "HOL-Library.Multiset"
begin

section \<open>JavaScript strings\<close>

text \<open>
  Strings are lists of 8-bit code units: a header value reaches the server decoded as
  Latin-1, and the string operations of the gate and of the handler are modelled on that
  range. \<open>toLowerCase\<close> maps A-Z and the upper-case letters of the Latin-1 supplement
  (0xC0-0xDE without the multiplication sign 0xD7) to their lower-case forms; \<open>trim\<close>
  removes white space and line terminators from both ends (TAB, LF, VT, FF, CR, SP, NBSP).
\<close>

definition is_js_space :: "char \<Rightarrow> bool" where
  "is_js_space c = (of_char c \<in> {9, 10, 11, 12, 13, 32, 160 :: nat})"

definition toLowerCase_char :: "char \<Rightarrow> char" where
  "toLowerCase_char c =
     (let n = (of_char c :: nat) in
      if (65 \<le> n \<and> n \<le> 90) \<or> (192 \<le> n \<and> n \<le> 222 \<and> n \<noteq> 215)
      then char_of (n + 32) else c)"

definition toLowerCase :: "string \<Rightarrow> string" where
  "toLowerCase s = map toLowerCase_char s"

definition trim :: "string \<Rightarrow> string" where
  "trim s = rev (dropWhile is_js_space (rev (dropWhile is_js_space s)))"

section \<open>Requests\<close>

text \<open>
  \<open>req.headers[name]\<close> has the type \<open>string | string[] | undefined\<close>. The body is the
  parsed JSON object of \<open>POST /scrape\<close>; a field is \<open>None\<close> when it is missing or is
  not of the type the handler tests for.
\<close>

datatype header_value = Absent | Single string | Multiple "string list"

datatype error = TypeError | RangeError | LibraryError string

record scrape_body =
  url :: "string option"
  markdown :: "bool option"
  html :: "bool option"
  clientAddress :: "string option"

record request =
  x_wallet_address :: header_value
  ip :: "string option"
  remoteAddress :: "string option"
  body :: scrape_body
  freeTier :: "bool option"
  freeTierRemaining :: "int option"

section \<open>Freemium gate (middleware/freemium)\<close>

type_synonym store = "string \<rightharpoonup> nat"

definition FREE_TIER_LIMIT :: nat where
  "FREE_TIER_LIMIT = 2"

text \<open>\<open>const wallet = ((req.headers["x-wallet-address"] as string) ?? "").toLowerCase().trim()\<close>:
  the cast is erased at run time, so an array value has no \<open>toLowerCase\<close> method and the
  call raises a TypeError.\<close>

definition walletOf :: "header_value \<Rightarrow> error + string" where
  "walletOf h =
     (case h of
        Absent \<Rightarrow> Inr (trim (toLowerCase []))
      | Single s \<Rightarrow> Inr (trim (toLowerCase s))
      | Multiple xs \<Rightarrow> Inl TypeError)"

text \<open>\<open>a || b\<close> on values that are a string or undefined: the first one that is a non-empty
  string.\<close>

definition truthy :: "string option \<Rightarrow> bool" where
  "truthy v = (case v of None \<Rightarrow> False | Some s \<Rightarrow> s \<noteq> [])"

text \<open>\<open>const callerId = wallet || req.ip || req.socket.remoteAddress || "unknown"\<close>\<close>

definition callerIdFrom :: "string \<Rightarrow> request \<Rightarrow> string" where
  "callerIdFrom wallet req =
     (if wallet \<noteq> [] then wallet
      else if truthy (ip req) then the (ip req)
      else if truthy (remoteAddress req) then the (remoteAddress req)
      else ''unknown'')"

definition callerId :: "request \<Rightarrow> error + string" where
  "callerId req =
     (case walletOf (x_wallet_address req) of
        Inl e \<Rightarrow> Inl e
      | Inr wallet \<Rightarrow> Inr (callerIdFrom wallet req))"

text \<open>
  The middleware either calls \<open>next()\<close>, which runs the route handler, or hands the request
  to \<open>paymentMiddlewareFn\<close>; an exception leaves it before any of the two.
\<close>

datatype route = Handler request | PaymentAdapter request

definition used_of :: "store \<Rightarrow> string \<Rightarrow> nat" where
  "used_of walletUsage k = (case walletUsage k of None \<Rightarrow> 0 | Some n \<Rightarrow> n)"

definition freemiumGate :: "store \<Rightarrow> request \<Rightarrow> store \<times> (error + route)" where
  "freemiumGate walletUsage req =
     (case callerId req of
        Inl e \<Rightarrow> (walletUsage, Inl e)
      | Inr cid \<Rightarrow>
          let used = used_of walletUsage cid in
          if used < FREE_TIER_LIMIT
          then (walletUsage(cid \<mapsto> used + 1),
                Inr (Handler (req\<lparr>freeTier := Some True,
                       freeTierRemaining := Some (int FREE_TIER_LIMIT - int used - 1)\<rparr>)))
          else (walletUsage, Inr (PaymentAdapter req)))"

text \<open>A process lifetime: the requests are served one after the other from a store.\<close>

fun serve :: "store \<Rightarrow> request list \<Rightarrow> (error + route) list" where
  "serve walletUsage [] = []"
| "serve walletUsage (r # rs) =
     (case freemiumGate walletUsage r of (walletUsage', out) \<Rightarrow> out # serve walletUsage' rs)"

definition granted :: "error + route \<Rightarrow> bool" where
  "granted out = (case out of Inr (Handler r) \<Rightarrow> True | _ \<Rightarrow> False)"

definition to_adapter :: "error + route \<Rightarrow> bool" where
  "to_adapter out = (case out of Inr (PaymentAdapter r) \<Rightarrow> True | _ \<Rightarrow> False)"

section \<open>Extraction service (services/simplescraper)\<close>

text \<open>Number to string conversion of a non-negative integer, as in \<open>`HTTP ${status}`\<close> and
  \<open>url + Date.now()\<close>: its decimal digits.\<close>

fun String_of_nat :: "nat \<Rightarrow> string" where
  "String_of_nat n =
     (if n < 10 then [char_of (48 + n)]
      else String_of_nat (n div 10) @ [char_of (48 + n mod 10)])"

declare String_of_nat.simps [simp del]

text \<open>
  The JSON object returned by the upstream service is opaque to the server: its fields as
  key/value pairs. \<open>axios.post\<close> either rejects with a thrown value or resolves with a
  status and a body (\<open>validateStatus: () => true\<close>); an error body may carry
  \<open>error.message\<close>.
\<close>

type_synonym service_result = "(string \<times> string) list"

datatype thrown = ErrorObject string | OtherValue

record upstream_body =
  error_message :: "string option"
  result_fields :: service_result

datatype axios_outcome = Rejected thrown | Resolved nat upstream_body

datatype extract_result = Ok service_result | Failed string "nat option"

definition BASE_URL :: string where
  "BASE_URL = ''https://api.simplescraper.io/v1''"

definition extractUrl ::
  "string option \<Rightarrow> (string \<Rightarrow> string \<Rightarrow> bool \<Rightarrow> bool \<Rightarrow> string \<Rightarrow> axios_outcome) \<Rightarrow>
   string \<Rightarrow> bool option \<Rightarrow> bool option \<Rightarrow> extract_result" where
  "extractUrl apiKey axios_post u md ht =
     (if \<not> truthy apiKey then Failed ''SIMPLESCRAPER_API_KEY not configured'' None
      else
        case axios_post (BASE_URL @ ''/extract'') u
               (case md of None \<Rightarrow> False | Some b \<Rightarrow> b)
               (case ht of None \<Rightarrow> False | Some b \<Rightarrow> b)
               (''Bearer '' @ the apiKey) of
          Rejected err \<Rightarrow>
            Failed (case err of ErrorObject m \<Rightarrow> m | OtherValue \<Rightarrow> ''Unknown error'') None
        | Resolved st d \<Rightarrow>
            if st \<ge> 400
            then Failed (case error_message d of Some m \<Rightarrow> m
                         | None \<Rightarrow> ''HTTP '' @ String_of_nat st) (Some st)
            else Ok (result_fields d))"

section \<open>Route handler (server)\<close>

type_synonym byte = "8 word"

text \<open>
  The functions of the \<open>ethers\<close> library that the handler calls are parameters of the
  model. \<open>id_keccak\<close> is \<open>id\<close> (the digest of a string, as a hex string), \<open>abi_encode\<close> is
  \<open>AbiCoder.defaultAbiCoder().encode\<close>, \<open>signMessage\<close> is \<open>Wallet.signMessage\<close>, and
  \<open>newWallet\<close> is the constructor \<open>new Wallet(key)\<close>; those three can throw. Byte strings
  are modelled as byte lists, so \<open>getBytes\<close> is the identity on them. \<open>verifyMessage\<close> is
  the recovery function of the library; the server does not call it.
\<close>

datatype abi_value = Uint256 int | Uint64 int | Address string

record wallet =
  address :: string
  privateKey :: string

record ethers =
  id_keccak :: "string \<Rightarrow> string"
  abi_encode :: "abi_value list \<Rightarrow> error + byte list"
  keccak256 :: "byte list \<Rightarrow> byte list"
  signMessage :: "wallet \<Rightarrow> byte list \<Rightarrow> error + byte list"
  hexlify :: "byte list \<Rightarrow> string"
  newWallet :: "string \<Rightarrow> error + wallet"
  verifyMessage :: "byte list \<Rightarrow> byte list \<Rightarrow> string"

text \<open>The module-level constants read from the environment. \<open>CHAIN_ID\<close> is the result of
  \<open>parseInt\<close>, \<open>None\<close> when it is NaN.\<close>

record config =
  agentWallet :: "wallet option"
  IDENTITY_REGISTRY :: string
  CHAIN_ID :: "int option"
  NUMERIC_AGENT_ID :: "int option"
  SIMPLESCRAPER_API_KEY :: "string option"

text \<open>\<open>const agentWallet = process.env.AGENT_PRIVATE_KEY ? new Wallet(...) : null\<close>, evaluated
  when the module is loaded: an exception here ends the process before it listens.\<close>

definition loadAgentWallet :: "ethers \<Rightarrow> string option \<Rightarrow> error + wallet option" where
  "loadAgentWallet lib AGENT_PRIVATE_KEY =
     (if truthy AGENT_PRIVATE_KEY
      then (case newWallet lib (the AGENT_PRIVATE_KEY) of
              Inl e \<Rightarrow> Inl e
            | Inr w \<Rightarrow> Inr (Some w))
      else Inr None)"

text \<open>What one request observes of the outside: the outcome of the upstream call and the
  two readings of \<open>Date.now()\<close> (milliseconds), at \<open>taskId\<close> and at \<open>expiry\<close>.\<close>

record world =
  axios_post :: "string \<Rightarrow> string \<Rightarrow> bool \<Rightarrow> bool \<Rightarrow> string \<Rightarrow> axios_outcome"
  now_taskId :: nat
  now_expiry :: nat

record feedback_auth =
  agentId :: string
  taskId :: string

record payload =
  data :: service_result
  feedbackAuthContract :: "string option"
  feedbackAuth :: "feedback_auth option"

datatype resp_body =
    ErrorJson string "string list option"
  | PayloadJson payload

record response =
  status :: nat
  json :: resp_body

datatype event = ExtractUrlCalled string | ConsoleError error

text \<open>\<open>new Uint8Array(n)\<close> and \<open>TypedArray.prototype.set(source, offset)\<close>, which raises a
  RangeError when the source does not fit.\<close>

definition new_Uint8Array :: "nat \<Rightarrow> byte list" where
  "new_Uint8Array n = replicate n 0"

definition Uint8Array_set :: "byte list \<Rightarrow> byte list \<Rightarrow> nat \<Rightarrow> error + byte list" where
  "Uint8Array_set target src offset =
     (if offset + length src > length target then Inl RangeError
      else Inr (take offset target @ src @ drop (offset + length src) target))"

text \<open>\<open>url + Date.now()\<close> hashed by \<open>id\<close>.\<close>

definition taskIdOf :: "ethers \<Rightarrow> string \<Rightarrow> nat \<Rightarrow> string" where
  "taskIdOf lib u now = id_keccak lib (u @ String_of_nat now)"

text \<open>The client address: the trimmed body field if that is a non-empty string, else the
  trimmed header if the header is a string.\<close>

definition clientAddressOf :: "request \<Rightarrow> string option" where
  "clientAddressOf req =
     (let fromBody = (case clientAddress (body req) of
                        Some s \<Rightarrow> Some (trim s) | None \<Rightarrow> None)
      in if truthy fromBody then fromBody
         else (case x_wallet_address req of
                 Single s \<Rightarrow> Some (trim s) | _ \<Rightarrow> None))"

text \<open>The seven values passed to the encoder, in the order of the source.\<close>

definition authStruct :: "config \<Rightarrow> wallet \<Rightarrow> string \<Rightarrow> int \<Rightarrow> nat \<Rightarrow> int \<Rightarrow> abi_value list" where
  "authStruct cfg w client agent now chain =
     [Uint256 agent, Address client, Uint64 1000,
      Uint256 (int (now div 1000) + 3600), Uint256 chain,
      Address (IDENTITY_REGISTRY cfg), Address (address w)]"

text \<open>The block guarded by \<open>NUMERIC_AGENT_ID !== null\<close>: the contract-format blob.\<close>

definition feedbackAuthContractOf ::
  "ethers \<Rightarrow> config \<Rightarrow> world \<Rightarrow> wallet \<Rightarrow> string \<Rightarrow> int \<Rightarrow> error + byte list" where
  "feedbackAuthContractOf lib cfg w aw client agent =
     (case CHAIN_ID cfg of
        None \<Rightarrow> Inl RangeError
      | Some chain \<Rightarrow>
          (case abi_encode lib (authStruct cfg aw client agent (now_expiry w) chain) of
             Inl e \<Rightarrow> Inl e
           | Inr encodedStruct \<Rightarrow>
               (case signMessage lib aw (keccak256 lib encodedStruct) of
                  Inl e \<Rightarrow> Inl e
                | Inr contractSig \<Rightarrow>
                    (case Uint8Array_set (new_Uint8Array (224 + 65)) encodedStruct 0 of
                       Inl e \<Rightarrow> Inl e
                     | Inr authBytes \<Rightarrow> Uint8Array_set authBytes contractSig 224))))"

text \<open>The feedback-auth part of the handler: what it adds to the payload, or the
  exception that leaves it.\<close>

definition feedbackAuthStep ::
  "ethers \<Rightarrow> config \<Rightarrow> world \<Rightarrow> string \<Rightarrow> request \<Rightarrow>
   error + (string option \<times> feedback_auth option)" where
  "feedbackAuthStep lib cfg w u req =
     (case agentWallet cfg of
        None \<Rightarrow> Inr (None, None)
      | Some aw \<Rightarrow>
          (if \<not> truthy (clientAddressOf req) then Inr (None, None)
           else
             (case NUMERIC_AGENT_ID cfg of
                None \<Rightarrow>
                  Inr (None, Some \<lparr>agentId = address aw,
                                   taskId = taskIdOf lib u (now_taskId w)\<rparr>)
              | Some agent \<Rightarrow>
                  (case feedbackAuthContractOf lib cfg w aw (the (clientAddressOf req)) agent of
                     Inl e \<Rightarrow> Inl e
                   | Inr authBytes \<Rightarrow>
                       Inr (Some (hexlify lib authBytes),
                            Some \<lparr>agentId = address aw,
                                   taskId = taskIdOf lib u (now_taskId w)\<rparr>)))))"

definition scrapeHandler ::
  "ethers \<Rightarrow> config \<Rightarrow> world \<Rightarrow> request \<Rightarrow> response \<times> event list" where
  "scrapeHandler lib cfg w req =
     (let u = (case url (body req) of Some s \<Rightarrow> Some (trim s) | None \<Rightarrow> None) in
      if \<not> truthy u
      then (\<lparr>status = 400,
             json = ErrorJson ''Missing required field: url''
                      (Some [''markdown'', ''html'', ''clientAddress''])\<rparr>, [])
      else
        case extractUrl (SIMPLESCRAPER_API_KEY cfg) (axios_post w) (the u)
               (markdown (body req)) (html (body req)) of
          Failed msg st \<Rightarrow>
            (\<lparr>status = (case st of Some c \<Rightarrow> c | None \<Rightarrow> 503),
              json = ErrorJson msg None\<rparr>, [ExtractUrlCalled (the u)])
        | Ok d \<Rightarrow>
            (case feedbackAuthStep lib cfg w (the u) req of
               Inl e \<Rightarrow>
                 (\<lparr>status = 500,
                   json = ErrorJson ''Internal server error during scrape.'' None\<rparr>,
                  [ExtractUrlCalled (the u), ConsoleError e])
             | Inr (fac, fa) \<Rightarrow>
                 (\<lparr>status = 200,
                   json = PayloadJson
                            \<lparr>data = d, feedbackAuthContract = fac, feedbackAuth = fa\<rparr>\<rparr>,
                  [ExtractUrlCalled (the u)])))"

text \<open>
  The route \<open>POST /scrape\<close>: the gate, then the handler, with the payment middleware in
  between for a request that is not free. The payment middleware is external: it either
  calls \<open>next()\<close> or ends the exchange with its own response.
\<close>

datatype adapter_decision = CallsNext | Terminates response

definition postScrape ::
  "(request \<Rightarrow> adapter_decision) \<Rightarrow> ethers \<Rightarrow> config \<Rightarrow> world \<Rightarrow> store \<Rightarrow> request \<Rightarrow>
   store \<times> (error + response \<times> event list)" where
  "postScrape paymentMiddlewareFn lib cfg w walletUsage req =
     (case freemiumGate walletUsage req of
        (walletUsage', Inl e) \<Rightarrow> (walletUsage', Inl e)
      | (walletUsage', Inr (Handler r)) \<Rightarrow> (walletUsage', Inr (scrapeHandler lib cfg w r))
      | (walletUsage', Inr (PaymentAdapter r)) \<Rightarrow>
          (case paymentMiddlewareFn r of
             CallsNext \<Rightarrow> (walletUsage', Inr (scrapeHandler lib cfg w r))
           | Terminates resp \<Rightarrow> (walletUsage', Inr (resp, []))))"

section \<open>Derived notions used by the properties\<close>

text \<open>The number of calls of a caller among the first \<open>j\<close> requests of a process lifetime,
  and the number of free grants a caller gets over a sequence of arrivals.\<close>

definition calls_before :: "string \<Rightarrow> request list \<Rightarrow> nat \<Rightarrow> nat" where
  "calls_before cid reqs j = length (filter (\<lambda>r. callerId r = Inr cid) (take j reqs))"

definition free_grants :: "string \<Rightarrow> store \<Rightarrow> request list \<Rightarrow> nat" where
  "free_grants cid walletUsage reqs =
     length (filter (\<lambda>(r, out). callerId r = Inr cid \<and> granted out)
               (zip reqs (serve walletUsage reqs)))"

text \<open>
  Identity resolution as the specification words it: the wallet value in lower case if it
  is present and non-empty after trimming, otherwise the forwarded client address, then
  the socket peer address, then the sentinel.
\<close>

definition spec_identity :: "string option \<Rightarrow> string option \<Rightarrow> string option \<Rightarrow> string" where
  "spec_identity walletHeader forwarded peer =
     (if truthy (map_option trim walletHeader) then toLowerCase (trim (the walletHeader))
      else if truthy forwarded then the forwarded
      else if truthy peer then the peer
      else ''unknown'')"

definition header_string :: "header_value \<Rightarrow> string option" where
  "header_string h = (case h of Single v \<Rightarrow> Some v | _ \<Rightarrow> None)"

section \<open>Example inputs\<close>

definition req_0xabc :: request where
  "req_0xabc =
     \<lparr>x_wallet_address = Single ''0xABC '', ip = Some ''10.0.0.7'', remoteAddress = None,
      body = \<lparr>url = Some ''https://example.com'', markdown = None, html = None,
               clientAddress = None\<rparr>,
      freeTier = None, freeTierRemaining = None\<rparr>"

definition req_other :: request where
  "req_other =
     \<lparr>x_wallet_address = Absent, ip = Some ''10.0.0.9'', remoteAddress = None,
      body = \<lparr>url = Some ''https://example.org'', markdown = None, html = None,
               clientAddress = None\<rparr>,
      freeTier = None, freeTierRemaining = None\<rparr>"


definition req_no_url :: request where
  "req_no_url =
     \<lparr>x_wallet_address = Single ''0xabc'', ip = None, remoteAddress = None,
      body = \<lparr>url = Some ''   '', markdown = None, html = None, clientAddress = None\<rparr>,
      freeTier = None, freeTierRemaining = None\<rparr>"

definition demo_address :: string where
  "demo_address = ''0x00000000000000000000000000000000000000a1''"

text \<open>A stand-in for the library that keeps the shapes of its results: one 32-byte word for
  each encoded value, an encoder that rejects a string that has not the length of an
  address, a 32-byte digest, and a 65-byte signature.\<close>

definition demo_ethers :: ethers where
  "demo_ethers =
     \<lparr>id_keccak = (\<lambda>s. ''0x'' @ s),
      abi_encode = (\<lambda>vs. if \<forall>v \<in> set vs. (case v of Address a \<Rightarrow> length a = 42 | _ \<Rightarrow> True)
                          then Inr (replicate (32 * length vs) 0)
                          else Inl (LibraryError ''invalid address'')),
      keccak256 = (\<lambda>bs. replicate 32 (of_nat (length bs))),
      signMessage = (\<lambda>k m. if address k = demo_address then Inr (replicate 65 1)
                            else Inl (LibraryError ''unknown key'')),
      hexlify = map (\<lambda>b. char_of (unat b)),
      newWallet = (\<lambda>k. if length k = 66 then Inr \<lparr>address = demo_address, privateKey = k\<rparr>
                         else Inl (LibraryError ''invalid private key'')),
      verifyMessage = (\<lambda>m sg. demo_address)\<rparr>"

definition demo_config :: config where
  "demo_config =
     \<lparr>agentWallet = Some \<lparr>address = demo_address, privateKey = ''0x01''\<rparr>,
      IDENTITY_REGISTRY = ''0x8004AA63c570c570eBF15376c0dB199918BFe9Fb'',
      CHAIN_ID = Some 84532,
      NUMERIC_AGENT_ID = Some 7,
      SIMPLESCRAPER_API_KEY = Some ''sk''\<rparr>"

definition demo_world :: world where
  "demo_world =
     \<lparr>axios_post = (\<lambda>endpoint u md ht auth.
         Resolved 200 \<lparr>error_message = None, result_fields = [(''url'', u)]\<rparr>),
      now_taskId = 1700000000123,
      now_expiry = 1700000000124\<rparr>"

definition demo_paywall :: "request \<Rightarrow> adapter_decision" where
  "demo_paywall r = Terminates \<lparr>status = 402, json = ErrorJson ''Payment required'' None\<rparr>"

definition demo_world_404 :: world where
  "demo_world_404 =
     \<lparr>axios_post = (\<lambda>endpoint u md ht auth.
         Resolved 404 \<lparr>error_message = Some ''Not found'', result_fields = []\<rparr>),
      now_taskId = 1700000000123,
      now_expiry = 1700000000124\<rparr>"

definition demo_world_500 :: world where
  "demo_world_500 =
     \<lparr>axios_post = (\<lambda>endpoint u md ht auth.
         Resolved 500 \<lparr>error_message = None, result_fields = []\<rparr>),
      now_taskId = 1700000000123,
      now_expiry = 1700000000124\<rparr>"

definition demo_world_down :: world where
  "demo_world_down =
     \<lparr>axios_post = (\<lambda>endpoint u md ht auth. Rejected (ErrorObject ''timeout of 60000ms exceeded'')),
      now_taskId = 1700000000123,
      now_expiry = 1700000000124\<rparr>"

definition req_client :: request where
  "req_client =
     \<lparr>x_wallet_address = Absent, ip = Some ''10.0.0.7'', remoteAddress = None,
      body = \<lparr>url = Some ''https://example.com'', markdown = None, html = None,
               clientAddress = Some ''0x00000000000000000000000000000000000000c1''\<rparr>,
      freeTier = Some True, freeTierRemaining = Some 1\<rparr>"

definition req_bad_client :: request where
  "req_bad_client =
     \<lparr>x_wallet_address = Single ''abc'', ip = Some ''10.0.0.7'', remoteAddress = None,
      body = \<lparr>url = Some ''https://example.com'', markdown = None, html = None,
               clientAddress = None\<rparr>,
      freeTier = Some True, freeTierRemaining = Some 1\<rparr>"

definition ethers_sign_throws :: ethers where
  "ethers_sign_throws =
     demo_ethers\<lparr>signMessage := (\<lambda>k m. Inl (LibraryError ''signing failed''))\<rparr>"

definition demo_payload :: payload where
  "demo_payload =
     \<lparr>data = [(''url'', ''https://example.com'')],
      feedbackAuthContract = Some (hexlify demo_ethers (replicate 224 0 @ replicate 65 1)),
      feedbackAuth =
        Some \<lparr>agentId = demo_address,
              taskId = taskIdOf demo_ethers ''https://example.com'' 1700000000123\<rparr>\<rparr>"

definition req_not_an_address :: request where
  "req_not_an_address =
     \<lparr>x_wallet_address = Absent, ip = Some ''10.0.0.7'', remoteAddress = None,
      body = \<lparr>url = Some ''https://example.com'', markdown = None, html = None,
               clientAddress = Some ''not-an-address''\<rparr>,
      freeTier = Some True, freeTierRemaining = Some 0\<rparr>"

definition config_no_agent_id :: config where
  "config_no_agent_id = demo_config\<lparr>NUMERIC_AGENT_ID := None\<rparr>"

definition config_no_signer :: config where
  "config_no_signer = demo_config\<lparr>agentWallet := None\<rparr>"

section \<open>Lemmas on strings and identity resolution\<close>

lemmas js_string_eval = trim_def toLowerCase_def toLowerCase_char_def is_js_space_def
  char_of_def bit_0

lemma is_js_space_lower: "is_js_space (toLowerCase_char c) = is_js_space c"
proof -
  have "of_char (char_of (of_char c + 32 :: nat)) = (of_char c + 32 :: nat)"
    if "(of_char c :: nat) \<le> 222"
    using that by simp
  then show ?thesis
    by (auto simp add: is_js_space_def toLowerCase_char_def Let_def)
qed

lemma dropWhile_lower:
  "dropWhile is_js_space (map toLowerCase_char s) = map toLowerCase_char (dropWhile is_js_space s)"
  by (induction s) (simp_all add: is_js_space_lower)

lemma trim_toLowerCase: "trim (toLowerCase s) = toLowerCase (trim s)"
  by (simp add: trim_def toLowerCase_def dropWhile_lower rev_map)

lemma trim_Nil: "trim [] = []"
  by (simp add: trim_def)

lemma toLowerCase_Nil_iff: "toLowerCase s = [] \<longleftrightarrow> s = []"
  by (simp add: toLowerCase_def)

lemma callerId_Absent:
  "x_wallet_address req = Absent \<Longrightarrow>
   callerId req = Inr (spec_identity None (ip req) (remoteAddress req))"
  by (simp add: callerId_def walletOf_def callerIdFrom_def spec_identity_def truthy_def
      trim_Nil toLowerCase_def)

lemma callerId_Single:
  "x_wallet_address req = Single v \<Longrightarrow>
   callerId req = Inr (spec_identity (Some v) (ip req) (remoteAddress req))"
  by (simp add: callerId_def walletOf_def callerIdFrom_def spec_identity_def truthy_def
      trim_toLowerCase toLowerCase_Nil_iff)

lemma callerId_Multiple:
  "x_wallet_address req = Multiple vs \<Longrightarrow> callerId req = Inl TypeError"
  by (simp add: callerId_def walletOf_def)

lemma spec_identity_nonempty: "spec_identity h a b \<noteq> []"
  by (auto simp add: spec_identity_def truthy_def toLowerCase_Nil_iff split: option.splits)

lemma callerId_req_0xabc: "callerId req_0xabc = Inr ''0xabc''"
  by (simp add: req_0xabc_def callerId_def walletOf_def callerIdFrom_def js_string_eval)

lemma callerId_req_other: "callerId req_other = Inr ''10.0.0.9''"
  by (simp add: req_other_def callerId_def walletOf_def callerIdFrom_def truthy_def trim_def
      toLowerCase_def)

lemma callerId_req_no_url: "callerId req_no_url = Inr ''0xabc''"
  by (simp add: req_no_url_def callerId_def walletOf_def callerIdFrom_def js_string_eval)

section \<open>Lemmas on the gate\<close>

lemma used_of_upd: "used_of (s(k \<mapsto> n)) j = (if j = k then n else used_of s j)"
  by (simp add: used_of_def)

lemma gate_grant:
  "callerId req = Inr cid \<Longrightarrow> used_of s cid < FREE_TIER_LIMIT \<Longrightarrow>
   freemiumGate s req = (s(cid \<mapsto> used_of s cid + 1),
      Inr (Handler (req\<lparr>freeTier := Some True,
             freeTierRemaining := Some (int FREE_TIER_LIMIT - int (used_of s cid) - 1)\<rparr>)))"
  by (simp add: freemiumGate_def Let_def)

lemma gate_deny:
  "callerId req = Inr cid \<Longrightarrow> \<not> used_of s cid < FREE_TIER_LIMIT \<Longrightarrow>
   freemiumGate s req = (s, Inr (PaymentAdapter req))"
  by (simp add: freemiumGate_def Let_def)

lemma gate_error:
  "callerId req = Inl e \<Longrightarrow> freemiumGate s req = (s, Inl e)"
  by (simp add: freemiumGate_def)

lemma gate_granted_iff:
  "callerId req = Inr cid \<Longrightarrow>
   granted (snd (freemiumGate s req)) \<longleftrightarrow> used_of s cid < FREE_TIER_LIMIT"
  by (cases "used_of s cid < FREE_TIER_LIMIT") (simp_all add: gate_grant gate_deny granted_def)

lemma gate_adapter_iff:
  "callerId req = Inr cid \<Longrightarrow>
   to_adapter (snd (freemiumGate s req)) \<longleftrightarrow> \<not> used_of s cid < FREE_TIER_LIMIT"
  by (cases "used_of s cid < FREE_TIER_LIMIT")
     (simp_all add: gate_grant gate_deny to_adapter_def)

lemma gate_used_after:
  "used_of (fst (freemiumGate s r)) cid =
     (if callerId r = Inr cid \<and> used_of s cid < FREE_TIER_LIMIT then used_of s cid + 1
      else used_of s cid)"
proof (cases "callerId r")
  case (Inl e)
  then show ?thesis by (simp add: gate_error)
next
  case (Inr k)
  show ?thesis
  proof (cases "used_of s k < FREE_TIER_LIMIT")
    case True
    with Inr show ?thesis by (auto simp add: gate_grant used_of_upd)
  next
    case False
    with Inr show ?thesis by (auto simp add: gate_deny)
  qed
qed

lemma serve_length: "length (serve s reqs) = length reqs"
  by (induction reqs arbitrary: s) (auto split: prod.splits)

lemma serve_nth:
  "j < length reqs \<Longrightarrow> callerId (reqs ! j) = Inr cid \<Longrightarrow>
   (granted (serve s reqs ! j) \<longleftrightarrow> used_of s cid + calls_before cid reqs j < FREE_TIER_LIMIT) \<and>
   (to_adapter (serve s reqs ! j) \<longleftrightarrow>
      \<not> used_of s cid + calls_before cid reqs j < FREE_TIER_LIMIT)"
proof (induction reqs arbitrary: s j)
  case Nil
  then show ?case by simp
next
  case (Cons r rs)
  obtain s' out where g: "freemiumGate s r = (s', out)" by (cases "freemiumGate s r")
  show ?case
  proof (cases j)
    case 0
    with Cons.prems g gate_granted_iff [of r cid s] gate_adapter_iff [of r cid s]
    show ?thesis by (simp add: calls_before_def)
  next
    case (Suc i)
    with Cons.prems have i: "i < length rs" "callerId (rs ! i) = Inr cid" by simp_all
    have u: "used_of s' cid =
       (if callerId r = Inr cid \<and> used_of s cid < FREE_TIER_LIMIT then used_of s cid + 1
        else used_of s cid)"
      using gate_used_after [of s r cid] g by simp
    have "used_of s' cid + calls_before cid rs i < FREE_TIER_LIMIT \<longleftrightarrow>
          used_of s cid + calls_before cid (r # rs) (Suc i) < FREE_TIER_LIMIT"
      using u by (auto simp add: calls_before_def)
    with Cons.IH [OF i, of s'] g Suc show ?thesis by simp
  qed
qed

lemma free_grants_Cons:
  "free_grants cid s (r # rs) =
     (if callerId r = Inr cid \<and> used_of s cid < FREE_TIER_LIMIT then 1 else 0)
     + free_grants cid (fst (freemiumGate s r)) rs"
proof -
  obtain s' out where g: "freemiumGate s r = (s', out)" by (cases "freemiumGate s r")
  have "callerId r = Inr cid \<Longrightarrow> granted out \<longleftrightarrow> used_of s cid < FREE_TIER_LIMIT"
    using gate_granted_iff [of r cid s] g by simp
  with g show ?thesis by (auto simp add: free_grants_def)
qed

lemma free_grants_count:
  "free_grants cid s reqs =
     min (FREE_TIER_LIMIT - used_of s cid) (length (filter (\<lambda>r. callerId r = Inr cid) reqs))"
proof (induction reqs arbitrary: s)
  case Nil
  then show ?case by (simp add: free_grants_def)
next
  case (Cons r rs)
  show ?case
    unfolding free_grants_Cons Cons.IH gate_used_after by auto
qed

lemma filter_length_mset:
  "mset xs = mset ys \<Longrightarrow> length (filter P xs) = length (filter P ys)"
  by (metis mset_filter size_mset)

section \<open>Free-tier quota\<close>

text \<open>
  C1 (as amended). For a caller identity \<open>cid\<close>, one pass through the gate grants free
  access if and only if the stored count (0 for an unseen identity) is below the limit,
  which is 2. On a grant the stored count goes up by exactly one and the request carries
  \<open>freeTierRemaining = limit - consumed - 1\<close>. On a denial the store is left as it is and
  the request is handed to the payment adapter unchanged: no remaining count is reported.
  From an empty store, a call of \<open>cid\<close> goes directly to the handler if and only if fewer
  than \<open>limit\<close> calls of \<open>cid\<close> came before it, and is routed to the payment adapter
  otherwise: calls 1..limit go to the handler and call limit+1 is the first one routed to
  the adapter, whatever other callers do in between.
\<close>

theorem freemiumGate_quota:
  "callerId req = Inr cid \<Longrightarrow>
   FREE_TIER_LIMIT = 2 \<and>
   (granted (snd (freemiumGate s req)) \<longleftrightarrow> used_of s cid < FREE_TIER_LIMIT) \<and>
   (used_of s cid < FREE_TIER_LIMIT \<longrightarrow>
      freemiumGate s req =
        (s(cid \<mapsto> used_of s cid + 1),
         Inr (Handler (req\<lparr>freeTier := Some True,
           freeTierRemaining := Some (int FREE_TIER_LIMIT - int (used_of s cid) - 1)\<rparr>)))) \<and>
   (\<not> used_of s cid < FREE_TIER_LIMIT \<longrightarrow>
      freemiumGate s req = (s, Inr (PaymentAdapter req))) \<and>
   (\<forall>j < length reqs. callerId (reqs ! j) = Inr cid \<longrightarrow>
      (granted (serve Map.empty reqs ! j) \<longleftrightarrow> calls_before cid reqs j < FREE_TIER_LIMIT) \<and>
      (to_adapter (serve Map.empty reqs ! j) \<longleftrightarrow> FREE_TIER_LIMIT \<le> calls_before cid reqs j))"
proof -
  assume c: "callerId req = Inr cid"
  have seq: "\<forall>j < length reqs. callerId (reqs ! j) = Inr cid \<longrightarrow>
      (granted (serve Map.empty reqs ! j) \<longleftrightarrow> calls_before cid reqs j < FREE_TIER_LIMIT) \<and>
      (to_adapter (serve Map.empty reqs ! j) \<longleftrightarrow> FREE_TIER_LIMIT \<le> calls_before cid reqs j)"
  proof (intro allI impI)
    fix j
    assume "j < length reqs" "callerId (reqs ! j) = Inr cid"
    from serve_nth [OF this, of Map.empty]
    show "(granted (serve Map.empty reqs ! j) \<longleftrightarrow> calls_before cid reqs j < FREE_TIER_LIMIT) \<and>
      (to_adapter (serve Map.empty reqs ! j) \<longleftrightarrow> FREE_TIER_LIMIT \<le> calls_before cid reqs j)"
      by (simp add: used_of_def not_less)
  qed
  from c seq show ?thesis
    by (simp add: gate_granted_iff gate_grant gate_deny FREE_TIER_LIMIT_def)
qed

text \<open>The scenario of the specification: with the limit 2, the first two calls of "0xabc"
  are granted with 1 and 0 remaining and the third one is routed to the adapter, with a
  call of another caller in between.\<close>

theorem freemiumGate_quota_witness:
  "callerId req_0xabc = Inr ''0xabc'' \<and>
   freemiumGate Map.empty req_0xabc =
     ([''0xabc'' \<mapsto> 1],
      Inr (Handler (req_0xabc\<lparr>freeTier := Some True, freeTierRemaining := Some 1\<rparr>))) \<and>
   granted (serve Map.empty [req_0xabc, req_other, req_0xabc, req_0xabc] ! 2) \<and>
   to_adapter (serve Map.empty [req_0xabc, req_other, req_0xabc, req_0xabc] ! 3)"
proof -
  note q = freemiumGate_quota [OF callerId_req_0xabc, of Map.empty
      "[req_0xabc, req_other, req_0xabc, req_0xabc]"]
  from q have one: "freemiumGate Map.empty req_0xabc =
     ([''0xabc'' \<mapsto> 1],
      Inr (Handler (req_0xabc\<lparr>freeTier := Some True, freeTierRemaining := Some 1\<rparr>)))"
    by (simp add: used_of_def)
  from q have seq: "\<forall>j < 4. callerId ([req_0xabc, req_other, req_0xabc, req_0xabc] ! j) = Inr ''0xabc'' \<longrightarrow>
      (granted (serve Map.empty [req_0xabc, req_other, req_0xabc, req_0xabc] ! j) \<longleftrightarrow>
         calls_before ''0xabc'' [req_0xabc, req_other, req_0xabc, req_0xabc] j < 2) \<and>
      (to_adapter (serve Map.empty [req_0xabc, req_other, req_0xabc, req_0xabc] ! j) \<longleftrightarrow>
         2 \<le> calls_before ''0xabc'' [req_0xabc, req_other, req_0xabc, req_0xabc] j)"
    by simp
  from seq [rule_format, of 2]
  have two: "granted (serve Map.empty [req_0xabc, req_other, req_0xabc, req_0xabc] ! 2)"
    by (simp add: calls_before_def callerId_req_0xabc callerId_req_other)
  from seq [rule_format, of 3]
  have three: "to_adapter (serve Map.empty [req_0xabc, req_other, req_0xabc, req_0xabc] ! 3)"
    by (simp add: calls_before_def callerId_req_0xabc callerId_req_other)
  from one two three callerId_req_0xabc show ?thesis by simp
qed

text \<open>The claim as the specification states it says that a denial reports
  \<open>remaining = 0\<close>. With the quota of "0xabc" used up, the gate hands the request to the
  adapter as it came: \<open>freeTierRemaining\<close> is not set.\<close>

theorem freemiumGate_denial_reports_nothing:
  "freemiumGate [''0xabc'' \<mapsto> 2] req_0xabc =
     ([''0xabc'' \<mapsto> 2], Inr (PaymentAdapter req_0xabc)) \<and>
   freeTierRemaining req_0xabc = None \<and>
   freeTierRemaining req_0xabc \<noteq> Some 0"
proof -
  have "freemiumGate [''0xabc'' \<mapsto> 2] req_0xabc =
     ([''0xabc'' \<mapsto> 2], Inr (PaymentAdapter req_0xabc))"
    by (rule gate_deny [OF callerId_req_0xabc]) (simp add: used_of_def FREE_TIER_LIMIT_def)
  moreover have "freeTierRemaining req_0xabc = None"
    by (simp add: req_0xabc_def)
  ultimately show ?thesis by simp
qed

text \<open>
  C2. The gate contains no suspension point: Node runs one invocation of the middleware
  to its end before the next one starts, so requests handled concurrently reach the store
  one whole check-and-increment at a time, in the order of their arrival. For \<open>limit + k\<close>
  requests of one identity (\<open>k > 0\<close>) that start from an unused quota, every arrival order
  of the requests of the process, with the requests of other identities anywhere in
  between, grants exactly \<open>limit\<close> of them free access.
\<close>

theorem quota_grants_exactly_limit:
  "used_of s cid = 0 \<Longrightarrow> 0 < k \<Longrightarrow>
   length (filter (\<lambda>r. callerId r = Inr cid) reqs) = FREE_TIER_LIMIT + k \<Longrightarrow>
   mset arrivals = mset reqs \<Longrightarrow>
   free_grants cid s arrivals = FREE_TIER_LIMIT"
proof -
  assume u: "used_of s cid = 0" and k: "0 < k"
    and n: "length (filter (\<lambda>r. callerId r = Inr cid) reqs) = FREE_TIER_LIMIT + k"
    and m: "mset arrivals = mset reqs"
  from m have "length (filter (\<lambda>r. callerId r = Inr cid) arrivals) =
      length (filter (\<lambda>r. callerId r = Inr cid) reqs)"
    by (rule filter_length_mset)
  with n u show ?thesis by (simp add: free_grants_count)
qed

theorem quota_grants_exactly_limit_witness:
  "free_grants ''0xabc'' Map.empty [req_0xabc, req_0xabc, req_other, req_0xabc] = 2 \<and>
   free_grants ''0xabc'' Map.empty [req_other, req_0xabc, req_0xabc, req_0xabc] = 2"
proof -
  have u: "used_of Map.empty ''0xabc'' = 0" by (simp add: used_of_def)
  have k: "0 < (1::nat)" by simp
  have n: "length (filter (\<lambda>r. callerId r = Inr ''0xabc'')
      [req_0xabc, req_other, req_0xabc, req_0xabc]) = FREE_TIER_LIMIT + 1"
    by (simp add: callerId_req_0xabc callerId_req_other FREE_TIER_LIMIT_def)
  have m1: "mset [req_0xabc, req_0xabc, req_other, req_0xabc] =
      mset [req_0xabc, req_other, req_0xabc, req_0xabc]" by simp
  have m2: "mset [req_other, req_0xabc, req_0xabc, req_0xabc] =
      mset [req_0xabc, req_other, req_0xabc, req_0xabc]" by simp
  from quota_grants_exactly_limit [OF u k n m1] quota_grants_exactly_limit [OF u k n m2]
  show ?thesis by (simp add: FREE_TIER_LIMIT_def)
qed

section \<open>Identity resolution\<close>

text \<open>
  C7. The request metadata of the identity resolver is an optional wallet-style string
  and two optional origin strings. For a wallet header that is a string or is absent,
  the identity is the header value trimmed and in lower case if that is non-empty,
  otherwise \<open>req.ip\<close> if it is a non-empty string, otherwise the socket peer address if it
  is a non-empty string, otherwise "unknown". It is never the empty string, and the gate
  does not fail: it routes the request.
\<close>

theorem identity_resolution_total:
  "x_wallet_address req = Absent \<or> x_wallet_address req = Single v \<Longrightarrow>
   callerId req =
     Inr (spec_identity (header_string (x_wallet_address req)) (ip req) (remoteAddress req)) \<and>
   spec_identity (header_string (x_wallet_address req)) (ip req) (remoteAddress req) \<noteq> [] \<and>
   (\<exists>r. snd (freemiumGate s req) = Inr r)"
proof -
  assume h: "x_wallet_address req = Absent \<or> x_wallet_address req = Single v"
  let ?i = "spec_identity (header_string (x_wallet_address req)) (ip req) (remoteAddress req)"
  from h have c: "callerId req = Inr ?i"
    by (auto simp add: header_string_def callerId_Absent callerId_Single)
  have "\<exists>r. snd (freemiumGate s req) = Inr r"
  proof (cases "used_of s ?i < FREE_TIER_LIMIT")
    case True
    from gate_grant [OF c True] show ?thesis by simp
  next
    case False
    from gate_deny [OF c False] show ?thesis by simp
  qed
  with c spec_identity_nonempty show ?thesis by simp
qed

theorem identity_resolution_total_witness:
  "callerId req_0xabc = Inr ''0xabc'' \<and> callerId req_other = Inr ''10.0.0.9'' \<and>
   (\<exists>r. snd (freemiumGate Map.empty req_other) = Inr r)"
proof -
  have a: "x_wallet_address req_0xabc = Absent \<or> x_wallet_address req_0xabc = Single ''0xABC ''"
    by (simp add: req_0xabc_def)
  have b: "x_wallet_address req_other = Absent \<or> x_wallet_address req_other = Single []"
    by (simp add: req_other_def)
  from identity_resolution_total [OF a, of Map.empty]
    identity_resolution_total [OF b, of Map.empty]
  show ?thesis
    by (simp add: callerId_req_0xabc callerId_req_other)
qed



section \<open>The route handler\<close>

lemma handler_missing_url:
  "url (body req) = None \<or> (\<exists>v. url (body req) = Some v \<and> trim v = []) \<Longrightarrow>
   scrapeHandler lib cfg w req =
     (\<lparr>status = 400,
       json = ErrorJson ''Missing required field: url''
                (Some [''markdown'', ''html'', ''clientAddress''])\<rparr>, [])"
  by (auto simp add: scrapeHandler_def truthy_def)

text \<open>
  C10. The gate runs before the handler validates the body. For a caller within the free
  limit, a request whose body has no \<open>url\<close> string, or one that is empty after trimming,
  raises the caller's consumed count by one and is answered with 400; \<open>extractUrl\<close> is
  not called (the handler's event trace is empty).
\<close>

theorem quota_consumed_before_validation:
  "callerId req = Inr cid \<Longrightarrow> used_of s cid < FREE_TIER_LIMIT \<Longrightarrow>
   url (body req) = None \<or> (\<exists>v. url (body req) = Some v \<and> trim v = []) \<Longrightarrow>
   postScrape pm lib cfg w s req =
     (s(cid \<mapsto> used_of s cid + 1),
      Inr (\<lparr>status = 400,
            json = ErrorJson ''Missing required field: url''
                     (Some [''markdown'', ''html'', ''clientAddress''])\<rparr>, []))"
proof -
  assume c: "callerId req = Inr cid" and u: "used_of s cid < FREE_TIER_LIMIT"
    and b: "url (body req) = None \<or> (\<exists>v. url (body req) = Some v \<and> trim v = [])"
  let ?r = "req\<lparr>freeTier := Some True,
             freeTierRemaining := Some (int FREE_TIER_LIMIT - int (used_of s cid) - 1)\<rparr>"
  from b have "url (body ?r) = None \<or> (\<exists>v. url (body ?r) = Some v \<and> trim v = [])"
    by simp
  from handler_missing_url [OF this] gate_grant [OF c u]
  show ?thesis by (simp add: postScrape_def)
qed

theorem quota_consumed_before_validation_witness:
  "postScrape demo_paywall demo_ethers demo_config demo_world [''0xabc'' \<mapsto> 1] req_no_url =
     ([''0xabc'' \<mapsto> 2],
      Inr (\<lparr>status = 400,
            json = ErrorJson ''Missing required field: url''
                     (Some [''markdown'', ''html'', ''clientAddress''])\<rparr>, []))"
proof -
  have u: "used_of [''0xabc'' \<mapsto> 1] ''0xabc'' < FREE_TIER_LIMIT"
    by (simp add: used_of_def FREE_TIER_LIMIT_def)
  have b: "url (body req_no_url) = None \<or>
      (\<exists>v. url (body req_no_url) = Some v \<and> trim v = [])"
    by (simp add: req_no_url_def js_string_eval)
  from quota_consumed_before_validation [OF callerId_req_no_url u b,
      of demo_paywall demo_ethers demo_config demo_world]
  show ?thesis by (simp add: used_of_def numeral_2_eq_2)
qed

lemma handler_extract_failed:
  "url (body req) = Some v \<Longrightarrow> trim v \<noteq> [] \<Longrightarrow>
   extractUrl (SIMPLESCRAPER_API_KEY cfg) (axios_post w) (trim v)
     (markdown (body req)) (html (body req)) = Failed msg st \<Longrightarrow>
   scrapeHandler lib cfg w req =
     (\<lparr>status = (case st of Some c \<Rightarrow> c | None \<Rightarrow> 503), json = ErrorJson msg None\<rparr>,
      [ExtractUrlCalled (trim v)])"
  by (simp add: scrapeHandler_def truthy_def)

lemma handler_extract_ok:
  "url (body req) = Some v \<Longrightarrow> trim v \<noteq> [] \<Longrightarrow>
   extractUrl (SIMPLESCRAPER_API_KEY cfg) (axios_post w) (trim v)
     (markdown (body req)) (html (body req)) = Ok d \<Longrightarrow>
   scrapeHandler lib cfg w req =
     (case feedbackAuthStep lib cfg w (trim v) req of
        Inl e \<Rightarrow>
          (\<lparr>status = 500, json = ErrorJson ''Internal server error during scrape.'' None\<rparr>,
           [ExtractUrlCalled (trim v), ConsoleError e])
      | Inr (fac, fa) \<Rightarrow>
          (\<lparr>status = 200,
            json = PayloadJson \<lparr>data = d, feedbackAuthContract = fac, feedbackAuth = fa\<rparr>\<rparr>,
           [ExtractUrlCalled (trim v)]))"
  by (simp add: scrapeHandler_def truthy_def Let_def split: sum.splits prod.splits)

lemma extractUrl_Failed_cases:
  "extractUrl k post u md ht = Failed msg st \<Longrightarrow>
   (case st of
      Some c \<Rightarrow>
        truthy k \<and> 400 \<le> c \<and>
        (\<exists>d. post (BASE_URL @ ''/extract'') u (case md of None \<Rightarrow> False | Some b \<Rightarrow> b)
               (case ht of None \<Rightarrow> False | Some b \<Rightarrow> b) (''Bearer '' @ the k) = Resolved c d)
    | None \<Rightarrow>
        \<not> truthy k \<or>
        (\<exists>e. post (BASE_URL @ ''/extract'') u (case md of None \<Rightarrow> False | Some b \<Rightarrow> b)
               (case ht of None \<Rightarrow> False | Some b \<Rightarrow> b) (''Bearer '' @ the k) = Rejected e))"
  by (auto simp add: extractUrl_def split: if_splits axios_outcome.splits option.splits)

lemma extractUrl_no_key:
  "\<not> truthy k \<Longrightarrow>
   extractUrl k post u md ht = Failed ''SIMPLESCRAPER_API_KEY not configured'' None"
  by (simp add: extractUrl_def)

lemma extractUrl_rejected:
  "truthy k \<Longrightarrow>
   post (BASE_URL @ ''/extract'') u (case md of None \<Rightarrow> False | Some b \<Rightarrow> b)
     (case ht of None \<Rightarrow> False | Some b \<Rightarrow> b) (''Bearer '' @ the k) = Rejected e \<Longrightarrow>
   extractUrl k post u md ht =
     Failed (case e of ErrorObject m \<Rightarrow> m | OtherValue \<Rightarrow> ''Unknown error'') None"
  by (simp add: extractUrl_def)

lemma extractUrl_error_status:
  "truthy k \<Longrightarrow>
   post (BASE_URL @ ''/extract'') u (case md of None \<Rightarrow> False | Some b \<Rightarrow> b)
     (case ht of None \<Rightarrow> False | Some b \<Rightarrow> b) (''Bearer '' @ the k) = Resolved c d \<Longrightarrow>
   400 \<le> c \<Longrightarrow>
   extractUrl k post u md ht =
     Failed (case error_message d of Some m \<Rightarrow> m | None \<Rightarrow> ''HTTP '' @ String_of_nat c)
       (Some c)"
  by (simp add: extractUrl_def)

text \<open>
  C9. For a request with a URL, every failure of the upstream extraction is answered with
  the JSON body \<open>{error: message}\<close> and nothing else. If the upstream service answers with
  a status of 400 or more, the response carries that status and the upstream message (or
  "HTTP" and the status). If the request to the upstream service is rejected (network
  error, timeout), or the API key is not configured, the response carries 503. Conversely,
  whenever \<open>extractUrl\<close> reports a failure, the handler answers with the status the failure
  carries, or 503 when it carries none, and a failure carries a status exactly when the
  upstream service answered with one. The answer has no attestation field and depends
  neither on the library, the signer, the agent id or the clock, nor on the free-tier
  marks of the request.
\<close>

theorem upstream_failure_surfaced:
  "url (body req) = Some v \<Longrightarrow> trim v \<noteq> [] \<Longrightarrow>
   (\<forall>c d. truthy (SIMPLESCRAPER_API_KEY cfg) \<and> 400 \<le> c \<and>
      axios_post w (BASE_URL @ ''/extract'') (trim v)
        (case markdown (body req) of None \<Rightarrow> False | Some b \<Rightarrow> b)
        (case html (body req) of None \<Rightarrow> False | Some b \<Rightarrow> b)
        (''Bearer '' @ the (SIMPLESCRAPER_API_KEY cfg)) = Resolved c d \<longrightarrow>
      scrapeHandler lib cfg w req =
        (\<lparr>status = c,
          json = ErrorJson (case error_message d of Some m \<Rightarrow> m
                            | None \<Rightarrow> ''HTTP '' @ String_of_nat c) None\<rparr>,
         [ExtractUrlCalled (trim v)])) \<and>
   (\<forall>e. truthy (SIMPLESCRAPER_API_KEY cfg) \<and>
      axios_post w (BASE_URL @ ''/extract'') (trim v)
        (case markdown (body req) of None \<Rightarrow> False | Some b \<Rightarrow> b)
        (case html (body req) of None \<Rightarrow> False | Some b \<Rightarrow> b)
        (''Bearer '' @ the (SIMPLESCRAPER_API_KEY cfg)) = Rejected e \<longrightarrow>
      scrapeHandler lib cfg w req =
        (\<lparr>status = 503,
          json = ErrorJson (case e of ErrorObject m \<Rightarrow> m | OtherValue \<Rightarrow> ''Unknown error'')
                   None\<rparr>,
         [ExtractUrlCalled (trim v)])) \<and>
   (\<not> truthy (SIMPLESCRAPER_API_KEY cfg) \<longrightarrow>
      scrapeHandler lib cfg w req =
        (\<lparr>status = 503, json = ErrorJson ''SIMPLESCRAPER_API_KEY not configured'' None\<rparr>,
         [ExtractUrlCalled (trim v)])) \<and>
   (\<forall>msg st.
      extractUrl (SIMPLESCRAPER_API_KEY cfg) (axios_post w) (trim v)
        (markdown (body req)) (html (body req)) = Failed msg st \<longrightarrow>
      scrapeHandler lib cfg w req =
        (\<lparr>status = (case st of Some c \<Rightarrow> c | None \<Rightarrow> 503), json = ErrorJson msg None\<rparr>,
         [ExtractUrlCalled (trim v)]) \<and>
      (case st of
         Some c \<Rightarrow>
           truthy (SIMPLESCRAPER_API_KEY cfg) \<and> 400 \<le> c \<and>
           (\<exists>d. axios_post w (BASE_URL @ ''/extract'') (trim v)
                  (case markdown (body req) of None \<Rightarrow> False | Some b \<Rightarrow> b)
                  (case html (body req) of None \<Rightarrow> False | Some b \<Rightarrow> b)
                  (''Bearer '' @ the (SIMPLESCRAPER_API_KEY cfg)) = Resolved c d)
       | None \<Rightarrow>
           \<not> truthy (SIMPLESCRAPER_API_KEY cfg) \<or>
           (\<exists>e. axios_post w (BASE_URL @ ''/extract'') (trim v)
                  (case markdown (body req) of None \<Rightarrow> False | Some b \<Rightarrow> b)
                  (case html (body req) of None \<Rightarrow> False | Some b \<Rightarrow> b)
                  (''Bearer '' @ the (SIMPLESCRAPER_API_KEY cfg)) = Rejected e)) \<and>
      scrapeHandler lib' (cfg\<lparr>agentWallet := aw', NUMERIC_AGENT_ID := agent',
          CHAIN_ID := chain', IDENTITY_REGISTRY := registry'\<rparr>)
        (w\<lparr>now_taskId := t1, now_expiry := t2\<rparr>)
        (req\<lparr>freeTier := ft, freeTierRemaining := ftr\<rparr>) = scrapeHandler lib cfg w req)"
proof -
  assume u: "url (body req) = Some v" and t: "trim v \<noteq> []"
  let ?cfg = "cfg\<lparr>agentWallet := aw', NUMERIC_AGENT_ID := agent', CHAIN_ID := chain',
       IDENTITY_REGISTRY := registry'\<rparr>"
  let ?w = "w\<lparr>now_taskId := t1, now_expiry := t2\<rparr>"
  let ?req = "req\<lparr>freeTier := ft, freeTierRemaining := ftr\<rparr>"
  let ?post = "axios_post w (BASE_URL @ ''/extract'') (trim v)
        (case markdown (body req) of None \<Rightarrow> False | Some b \<Rightarrow> b)
        (case html (body req) of None \<Rightarrow> False | Some b \<Rightarrow> b)
        (''Bearer '' @ the (SIMPLESCRAPER_API_KEY cfg))"
  have status: "\<forall>c d. truthy (SIMPLESCRAPER_API_KEY cfg) \<and> 400 \<le> c \<and> ?post = Resolved c d \<longrightarrow>
      scrapeHandler lib cfg w req =
        (\<lparr>status = c,
          json = ErrorJson (case error_message d of Some m \<Rightarrow> m
                            | None \<Rightarrow> ''HTTP '' @ String_of_nat c) None\<rparr>,
         [ExtractUrlCalled (trim v)])"
  proof (intro allI impI)
    fix c d
    assume a: "truthy (SIMPLESCRAPER_API_KEY cfg) \<and> 400 \<le> c \<and> ?post = Resolved c d"
    then have "extractUrl (SIMPLESCRAPER_API_KEY cfg) (axios_post w) (trim v)
        (markdown (body req)) (html (body req)) =
        Failed (case error_message d of Some m \<Rightarrow> m | None \<Rightarrow> ''HTTP '' @ String_of_nat c)
          (Some c)"
      by (intro extractUrl_error_status) simp_all
    from handler_extract_failed [OF u t this]
    show "scrapeHandler lib cfg w req =
        (\<lparr>status = c,
          json = ErrorJson (case error_message d of Some m \<Rightarrow> m
                            | None \<Rightarrow> ''HTTP '' @ String_of_nat c) None\<rparr>,
         [ExtractUrlCalled (trim v)])"
      by simp
  qed
  have rejected: "\<forall>e. truthy (SIMPLESCRAPER_API_KEY cfg) \<and> ?post = Rejected e \<longrightarrow>
      scrapeHandler lib cfg w req =
        (\<lparr>status = 503,
          json = ErrorJson (case e of ErrorObject m \<Rightarrow> m | OtherValue \<Rightarrow> ''Unknown error'')
                   None\<rparr>,
         [ExtractUrlCalled (trim v)])"
  proof (intro allI impI)
    fix e
    assume a: "truthy (SIMPLESCRAPER_API_KEY cfg) \<and> ?post = Rejected e"
    then have "extractUrl (SIMPLESCRAPER_API_KEY cfg) (axios_post w) (trim v)
        (markdown (body req)) (html (body req)) =
        Failed (case e of ErrorObject m \<Rightarrow> m | OtherValue \<Rightarrow> ''Unknown error'') None"
      by (intro extractUrl_rejected) simp_all
    from handler_extract_failed [OF u t this]
    show "scrapeHandler lib cfg w req =
        (\<lparr>status = 503,
          json = ErrorJson (case e of ErrorObject m \<Rightarrow> m | OtherValue \<Rightarrow> ''Unknown error'')
                   None\<rparr>,
         [ExtractUrlCalled (trim v)])"
      by simp
  qed
  have nokey: "\<not> truthy (SIMPLESCRAPER_API_KEY cfg) \<longrightarrow>
      scrapeHandler lib cfg w req =
        (\<lparr>status = 503, json = ErrorJson ''SIMPLESCRAPER_API_KEY not configured'' None\<rparr>,
         [ExtractUrlCalled (trim v)])"
  proof
    assume "\<not> truthy (SIMPLESCRAPER_API_KEY cfg)"
    from handler_extract_failed [OF u t extractUrl_no_key [OF this]]
    show "scrapeHandler lib cfg w req =
        (\<lparr>status = 503, json = ErrorJson ''SIMPLESCRAPER_API_KEY not configured'' None\<rparr>,
         [ExtractUrlCalled (trim v)])"
      by simp
  qed
  have failed: "\<forall>msg st.
      extractUrl (SIMPLESCRAPER_API_KEY cfg) (axios_post w) (trim v)
        (markdown (body req)) (html (body req)) = Failed msg st \<longrightarrow>
      scrapeHandler lib cfg w req =
        (\<lparr>status = (case st of Some c \<Rightarrow> c | None \<Rightarrow> 503), json = ErrorJson msg None\<rparr>,
         [ExtractUrlCalled (trim v)]) \<and>
      (case st of
         Some c \<Rightarrow>
           truthy (SIMPLESCRAPER_API_KEY cfg) \<and> 400 \<le> c \<and> (\<exists>d. ?post = Resolved c d)
       | None \<Rightarrow> \<not> truthy (SIMPLESCRAPER_API_KEY cfg) \<or> (\<exists>e. ?post = Rejected e)) \<and>
      scrapeHandler lib' ?cfg ?w ?req = scrapeHandler lib cfg w req"
  proof (intro allI impI)
    fix msg st
    assume f: "extractUrl (SIMPLESCRAPER_API_KEY cfg) (axios_post w) (trim v)
        (markdown (body req)) (html (body req)) = Failed msg st"
    have a: "scrapeHandler lib cfg w req =
       (\<lparr>status = (case st of Some c \<Rightarrow> c | None \<Rightarrow> 503), json = ErrorJson msg None\<rparr>,
        [ExtractUrlCalled (trim v)])"
      by (rule handler_extract_failed [OF u t f])
    have u': "url (body ?req) = Some v" using u by simp
    have f': "extractUrl (SIMPLESCRAPER_API_KEY ?cfg) (axios_post ?w) (trim v)
       (markdown (body ?req)) (html (body ?req)) = Failed msg st"
      using f by simp
    have b: "scrapeHandler lib' ?cfg ?w ?req =
       (\<lparr>status = (case st of Some c \<Rightarrow> c | None \<Rightarrow> 503), json = ErrorJson msg None\<rparr>,
        [ExtractUrlCalled (trim v)])"
      by (rule handler_extract_failed [OF u' t f'])
    from a b extractUrl_Failed_cases [OF f]
    show "scrapeHandler lib cfg w req =
        (\<lparr>status = (case st of Some c \<Rightarrow> c | None \<Rightarrow> 503), json = ErrorJson msg None\<rparr>,
         [ExtractUrlCalled (trim v)]) \<and>
      (case st of
         Some c \<Rightarrow>
           truthy (SIMPLESCRAPER_API_KEY cfg) \<and> 400 \<le> c \<and> (\<exists>d. ?post = Resolved c d)
       | None \<Rightarrow> \<not> truthy (SIMPLESCRAPER_API_KEY cfg) \<or> (\<exists>e. ?post = Rejected e)) \<and>
      scrapeHandler lib' ?cfg ?w ?req = scrapeHandler lib cfg w req"
      by simp
  qed
  from status rejected nokey failed show ?thesis by blast
qed

text \<open>An upstream answer 404 with a message, an upstream answer 500 without one, and a
  request to the upstream service that times out.\<close>

theorem upstream_failure_surfaced_witness:
  "scrapeHandler demo_ethers demo_config demo_world_404 req_0xabc =
     (\<lparr>status = 404, json = ErrorJson ''Not found'' None\<rparr>,
      [ExtractUrlCalled ''https://example.com'']) \<and>
   scrapeHandler demo_ethers demo_config demo_world_500 req_0xabc =
     (\<lparr>status = 500, json = ErrorJson ''HTTP 500'' None\<rparr>,
      [ExtractUrlCalled ''https://example.com'']) \<and>
   scrapeHandler demo_ethers demo_config demo_world_down req_0xabc =
     (\<lparr>status = 503, json = ErrorJson ''timeout of 60000ms exceeded'' None\<rparr>,
      [ExtractUrlCalled ''https://example.com''])"
proof -
  have u: "url (body req_0xabc) = Some ''https://example.com''"
    by (simp add: req_0xabc_def)
  have t: "trim ''https://example.com'' = ''https://example.com''"
    by (simp add: js_string_eval)
  then have n: "trim ''https://example.com'' \<noteq> []" by simp
  have k: "truthy (SIMPLESCRAPER_API_KEY demo_config)"
    by (simp add: demo_config_def truthy_def)
  have s: "String_of_nat 500 = ''500''"
    by (simp add: String_of_nat.simps char_of_def bit_0)
  have a: "axios_post demo_world_404 (BASE_URL @ ''/extract'') (trim ''https://example.com'')
      (case markdown (body req_0xabc) of None \<Rightarrow> False | Some b \<Rightarrow> b)
      (case html (body req_0xabc) of None \<Rightarrow> False | Some b \<Rightarrow> b)
      (''Bearer '' @ the (SIMPLESCRAPER_API_KEY demo_config)) =
      Resolved 404 \<lparr>error_message = Some ''Not found'', result_fields = []\<rparr>"
    by (simp add: demo_world_404_def)
  have b: "axios_post demo_world_500 (BASE_URL @ ''/extract'') (trim ''https://example.com'')
      (case markdown (body req_0xabc) of None \<Rightarrow> False | Some b \<Rightarrow> b)
      (case html (body req_0xabc) of None \<Rightarrow> False | Some b \<Rightarrow> b)
      (''Bearer '' @ the (SIMPLESCRAPER_API_KEY demo_config)) =
      Resolved 500 \<lparr>error_message = None, result_fields = []\<rparr>"
    by (simp add: demo_world_500_def)
  have c: "axios_post demo_world_down (BASE_URL @ ''/extract'') (trim ''https://example.com'')
      (case markdown (body req_0xabc) of None \<Rightarrow> False | Some b \<Rightarrow> b)
      (case html (body req_0xabc) of None \<Rightarrow> False | Some b \<Rightarrow> b)
      (''Bearer '' @ the (SIMPLESCRAPER_API_KEY demo_config)) =
      Rejected (ErrorObject ''timeout of 60000ms exceeded'')"
    by (simp add: demo_world_down_def)
  from upstream_failure_surfaced
         [where cfg = demo_config and w = demo_world_404 and lib = demo_ethers, OF u n] k a
  have one: "scrapeHandler demo_ethers demo_config demo_world_404 req_0xabc =
     (\<lparr>status = 404, json = ErrorJson ''Not found'' None\<rparr>,
      [ExtractUrlCalled ''https://example.com''])"
    by (simp add: t)
  from upstream_failure_surfaced
         [where cfg = demo_config and w = demo_world_500 and lib = demo_ethers, OF u n] k b
  have two: "scrapeHandler demo_ethers demo_config demo_world_500 req_0xabc =
     (\<lparr>status = 500, json = ErrorJson ''HTTP 500'' None\<rparr>,
      [ExtractUrlCalled ''https://example.com''])"
    by (simp add: t s)
  from upstream_failure_surfaced
         [where cfg = demo_config and w = demo_world_down and lib = demo_ethers, OF u n] k c
  have three: "scrapeHandler demo_ethers demo_config demo_world_down req_0xabc =
     (\<lparr>status = 503, json = ErrorJson ''timeout of 60000ms exceeded'' None\<rparr>,
      [ExtractUrlCalled ''https://example.com''])"
    by (simp add: t)
  from one two three show ?thesis by simp
qed

section \<open>Task reference\<close>

lemma String_of_nat_nonempty: "String_of_nat n \<noteq> []"
  by (subst String_of_nat.simps) simp

lemma digit_char_inj:
  "a < 10 \<Longrightarrow> b < 10 \<Longrightarrow> char_of (48 + a :: nat) = char_of (48 + b :: nat) \<Longrightarrow> a = b"
proof -
  assume a: "a < 10" and b: "b < 10" and e: "char_of (48 + a :: nat) = char_of (48 + b :: nat)"
  from e have "(of_char (char_of (48 + a :: nat)) :: nat) = of_char (char_of (48 + b :: nat))"
    by simp
  with a b show "a = b" by simp
qed

lemma String_of_nat_inj: "String_of_nat n = String_of_nat m \<Longrightarrow> n = m"
proof (induction n arbitrary: m rule: String_of_nat.induct)
  case (1 n)
  show ?case
  proof (cases "n < 10")
    case True
    note n = True
    show ?thesis
    proof (cases "m < 10")
      case True
      with n "1.prems" show ?thesis
        by (simp add: String_of_nat.simps [of n] String_of_nat.simps [of m] digit_char_inj)
    next
      case False
      with n "1.prems" String_of_nat_nonempty [of "m div 10"] show ?thesis
        by (simp add: String_of_nat.simps [of n] String_of_nat.simps [of m]
            Cons_eq_append_conv)
    qed
  next
    case False
    note n = False
    show ?thesis
    proof (cases "m < 10")
      case True
      with n "1.prems" String_of_nat_nonempty [of "n div 10"] show ?thesis
        by (simp add: String_of_nat.simps [of n] String_of_nat.simps [of m]
            append_eq_Cons_conv)
    next
      case False
      with n "1.prems" have e: "String_of_nat (n div 10) = String_of_nat (m div 10)"
        and d: "char_of (48 + n mod 10) = char_of (48 + m mod 10)"
        by (simp_all add: String_of_nat.simps [of n] String_of_nat.simps [of m])
      from "1.IH" [OF n e] have "n div 10 = m div 10" .
      moreover from d have "n mod 10 = m mod 10"
        by (intro digit_char_inj) simp_all
      ultimately show ?thesis by (metis div_mult_mod_eq)
    qed
  qed
qed

text \<open>
  C5. The task reference of a response is \<open>id\<close> of the requested URL followed by the
  decimal digits of the reading of \<open>Date.now()\<close>: it is a function of that pair, whatever
  the configuration, the rest of the request and the other clock reading are. For one
  URL, two different timestamps give two different strings to hash, so the two task
  references differ unless the digest collides on these two strings.
\<close>

theorem taskId_determined_by_url_and_time:
  "(feedbackAuthStep lib cfg w u req = Inr (fac, Some fa) \<longrightarrow>
      taskId fa = taskIdOf lib u (now_taskId w)) \<and>
   (t1 \<noteq> t2 \<longrightarrow> u @ String_of_nat t1 \<noteq> u @ String_of_nat t2) \<and>
   (t1 \<noteq> t2 \<and>
    (id_keccak lib (u @ String_of_nat t1) = id_keccak lib (u @ String_of_nat t2) \<longrightarrow>
       u @ String_of_nat t1 = u @ String_of_nat t2) \<longrightarrow>
    taskIdOf lib u t1 \<noteq> taskIdOf lib u t2)"
proof -
  have a: "feedbackAuthStep lib cfg w u req = Inr (fac, Some fa) \<longrightarrow>
      taskId fa = taskIdOf lib u (now_taskId w)"
    by (auto simp add: feedbackAuthStep_def split: option.splits if_splits sum.splits)
  have b: "t1 \<noteq> t2 \<longrightarrow> u @ String_of_nat t1 \<noteq> u @ String_of_nat t2"
    using String_of_nat_inj [of t1 t2] by auto
  from a b show ?thesis by (auto simp add: taskIdOf_def)
qed

theorem taskId_determined_by_url_and_time_witness:
  "taskIdOf demo_ethers ''https://example.com'' 1700000000123 \<noteq>
   taskIdOf demo_ethers ''https://example.com'' 1700000000124"
proof -
  have c: "id_keccak demo_ethers (''https://example.com'' @ String_of_nat 1700000000123) =
      id_keccak demo_ethers (''https://example.com'' @ String_of_nat 1700000000124) \<longrightarrow>
      ''https://example.com'' @ String_of_nat 1700000000123 =
      ''https://example.com'' @ String_of_nat 1700000000124"
    by (simp add: demo_ethers_def)
  have d: "(1700000000123::nat) \<noteq> 1700000000124" by simp
  from taskId_determined_by_url_and_time
    [of demo_ethers demo_config demo_world "''https://example.com''" req_client None
       "\<lparr>agentId = demo_address, taskId = []\<rparr>" 1700000000123 1700000000124] c d
  show ?thesis by blast
qed

section \<open>Feedback authorisation\<close>

lemma feedbackAuthStep_no_wallet:
  "agentWallet cfg = None \<Longrightarrow> feedbackAuthStep lib cfg w u req = Inr (None, None)"
  by (simp add: feedbackAuthStep_def)

lemma feedbackAuthStep_no_client:
  "\<not> truthy (clientAddressOf req) \<Longrightarrow> feedbackAuthStep lib cfg w u req = Inr (None, None)"
  by (simp add: feedbackAuthStep_def split: option.splits)

lemma feedbackAuthStep_light:
  "agentWallet cfg = Some aw \<Longrightarrow> truthy (clientAddressOf req) \<Longrightarrow>
   NUMERIC_AGENT_ID cfg = None \<Longrightarrow>
   feedbackAuthStep lib cfg w u req =
     Inr (None, Some \<lparr>agentId = address aw, taskId = taskIdOf lib u (now_taskId w)\<rparr>)"
  by (simp add: feedbackAuthStep_def)

lemma feedbackAuthStep_contract:
  "agentWallet cfg = Some aw \<Longrightarrow> truthy (clientAddressOf req) \<Longrightarrow>
   NUMERIC_AGENT_ID cfg = Some agent \<Longrightarrow>
   feedbackAuthStep lib cfg w u req =
     (case feedbackAuthContractOf lib cfg w aw (the (clientAddressOf req)) agent of
        Inl e \<Rightarrow> Inl e
      | Inr authBytes \<Rightarrow>
          Inr (Some (hexlify lib authBytes),
               Some \<lparr>agentId = address aw, taskId = taskIdOf lib u (now_taskId w)\<rparr>))"
  by (simp add: feedbackAuthStep_def)

lemma Uint8Array_set_length:
  "Uint8Array_set target src offset = Inr r \<Longrightarrow> length r = length target"
  by (auto simp add: Uint8Array_set_def split: if_splits)

lemma contract_blob:
  assumes "feedbackAuthContractOf lib cfg w aw client agent = Inr blob"
  shows "\<exists>chain enc sg.
     CHAIN_ID cfg = Some chain \<and>
     abi_encode lib (authStruct cfg aw client agent (now_expiry w) chain) = Inr enc \<and>
     signMessage lib aw (keccak256 lib enc) = Inr sg \<and>
     length blob = 289 \<and>
     (length enc = 224 \<longrightarrow> length sg = 65 \<longrightarrow> blob = enc @ sg)"
proof -
  from assms obtain chain where c: "CHAIN_ID cfg = Some chain"
    by (auto simp add: feedbackAuthContractOf_def split: option.splits)
  from assms c obtain enc
    where e: "abi_encode lib (authStruct cfg aw client agent (now_expiry w) chain) = Inr enc"
    by (auto simp add: feedbackAuthContractOf_def split: sum.splits)
  from assms c e obtain sg where g: "signMessage lib aw (keccak256 lib enc) = Inr sg"
    by (auto simp add: feedbackAuthContractOf_def split: sum.splits)
  from assms c e g obtain authBytes
    where a: "Uint8Array_set (new_Uint8Array (224 + 65)) enc 0 = Inr authBytes"
      and b: "Uint8Array_set authBytes sg 224 = Inr blob"
    by (auto simp add: feedbackAuthContractOf_def split: sum.splits)
  from a have la: "length authBytes = 289"
    by (auto dest: Uint8Array_set_length simp add: new_Uint8Array_def)
  with b have lb: "length blob = 289"
    by (auto dest: Uint8Array_set_length)
  have "blob = enc @ sg" if le: "length enc = 224" and ls: "length sg = 65"
  proof -
    from a le have "authBytes = enc @ replicate 65 0"
      by (auto simp add: Uint8Array_set_def new_Uint8Array_def split: if_splits)
    with b le ls show ?thesis
      by (auto simp add: Uint8Array_set_def split: if_splits)
  qed
  with c e g lb show ?thesis by blast
qed

lemma handler_payload_cases:
  assumes "fst (scrapeHandler lib cfg w req) = \<lparr>status = st, json = PayloadJson p\<rparr>"
  shows "\<exists>v. url (body req) = Some v \<and> trim v \<noteq> [] \<and> st = 200 \<and>
     feedbackAuthStep lib cfg w (trim v) req = Inr (feedbackAuthContract p, feedbackAuth p)"
proof -
  have "\<not> (url (body req) = None \<or> (\<exists>v. url (body req) = Some v \<and> trim v = []))"
  proof
    assume "url (body req) = None \<or> (\<exists>v. url (body req) = Some v \<and> trim v = [])"
    from handler_missing_url [OF this, of lib cfg w] assms show False by simp
  qed
  then obtain v where v: "url (body req) = Some v" "trim v \<noteq> []"
    by (cases "url (body req)") auto
  show ?thesis
  proof (cases "extractUrl (SIMPLESCRAPER_API_KEY cfg) (axios_post w) (trim v)
                  (markdown (body req)) (html (body req))")
    case (Ok d)
    from assms show ?thesis
      unfolding handler_extract_ok [OF v Ok] using v
      by (auto split: sum.splits prod.splits)
  next
    case (Failed msg c)
    from assms show ?thesis
      unfolding handler_extract_failed [OF v Failed] by simp
  qed
qed

lemma feedbackAuthStep_blob:
  assumes "feedbackAuthStep lib cfg w u req = Inr (Some h, fa)"
  shows "\<exists>aw agent client blob.
     agentWallet cfg = Some aw \<and> NUMERIC_AGENT_ID cfg = Some agent \<and>
     clientAddressOf req = Some client \<and> client \<noteq> [] \<and>
     feedbackAuthContractOf lib cfg w aw client agent = Inr blob \<and> h = hexlify lib blob"
  using assms
  by (auto simp add: feedbackAuthStep_def truthy_def
      split: option.splits if_splits sum.splits)

text \<open>
  C4. Hypotheses on the library: the encoder gives one 32-byte word for each value of
  these fixed-width types, and \<open>signMessage\<close> gives a signature of 65 bytes from which
  \<open>verifyMessage\<close> recovers the address of the signing wallet. When a response carries
  the contract blob, a signer and a numeric agent id are configured and a client address
  was supplied, and the blob is the hex rendering of 289 bytes: the first 224 bytes are
  the encoding of (agent id, client address, 1000, floor(now / 1000) + 3600, chain id,
  registry address, signer address) in this order, and the last 65 bytes are the
  signature of the digest of these 224 bytes by the signer, recoverable to the signer's
  address.
\<close>

theorem feedbackAuthContract_layout:
  "fst (scrapeHandler lib cfg w req) = \<lparr>status = st, json = PayloadJson p\<rparr> \<Longrightarrow>
   feedbackAuthContract p = Some h \<Longrightarrow>
   \<forall>vs bs. abi_encode lib vs = Inr bs \<longrightarrow> length bs = 32 * length vs \<Longrightarrow>
   \<forall>k m sg. signMessage lib k m = Inr sg \<longrightarrow>
      length sg = 65 \<and> verifyMessage lib m sg = address k \<Longrightarrow>
   \<exists>aw agent chain client blob.
     agentWallet cfg = Some aw \<and> NUMERIC_AGENT_ID cfg = Some agent \<and>
     CHAIN_ID cfg = Some chain \<and> clientAddressOf req = Some client \<and> client \<noteq> [] \<and>
     h = hexlify lib blob \<and> length blob = 289 \<and>
     abi_encode lib
       [Uint256 agent, Address client, Uint64 1000,
        Uint256 (int (now_expiry w div 1000) + 3600), Uint256 chain,
        Address (IDENTITY_REGISTRY cfg), Address (address aw)] = Inr (take 224 blob) \<and>
     length (take 224 blob) = 224 \<and>
     signMessage lib aw (keccak256 lib (take 224 blob)) = Inr (drop 224 blob) \<and>
     length (drop 224 blob) = 65 \<and>
     verifyMessage lib (keccak256 lib (take 224 blob)) (drop 224 blob) = address aw"
proof -
  assume r: "fst (scrapeHandler lib cfg w req) = \<lparr>status = st, json = PayloadJson p\<rparr>"
    and h: "feedbackAuthContract p = Some h"
    and enc_len: "\<forall>vs bs. abi_encode lib vs = Inr bs \<longrightarrow> length bs = 32 * length vs"
    and sig_ok: "\<forall>k m sg. signMessage lib k m = Inr sg \<longrightarrow>
      length sg = 65 \<and> verifyMessage lib m sg = address k"
  from handler_payload_cases [OF r] h obtain v
    where "feedbackAuthStep lib cfg w (trim v) req = Inr (Some h, feedbackAuth p)"
    by auto
  from feedbackAuthStep_blob [OF this] obtain aw agent client blob
    where aw: "agentWallet cfg = Some aw" and ag: "NUMERIC_AGENT_ID cfg = Some agent"
      and cl: "clientAddressOf req = Some client" "client \<noteq> []"
      and b: "feedbackAuthContractOf lib cfg w aw client agent = Inr blob"
      and hx: "h = hexlify lib blob"
    by blast
  from contract_blob [OF b] obtain chain enc sg
    where ch: "CHAIN_ID cfg = Some chain"
      and e: "abi_encode lib (authStruct cfg aw client agent (now_expiry w) chain) = Inr enc"
      and g: "signMessage lib aw (keccak256 lib enc) = Inr sg"
      and lb: "length blob = 289"
      and cat: "length enc = 224 \<longrightarrow> length sg = 65 \<longrightarrow> blob = enc @ sg"
    by blast
  from enc_len e have le: "length enc = 224" by (auto simp add: authStruct_def)
  from sig_ok g have ls: "length sg = 65"
    and rc: "verifyMessage lib (keccak256 lib enc) sg = address aw" by auto
  from cat le ls have bl: "blob = enc @ sg" by simp
  from bl le have tk: "take 224 blob = enc" and dr: "drop 224 blob = sg" by simp_all
  from e have e': "abi_encode lib
       [Uint256 agent, Address client, Uint64 1000,
        Uint256 (int (now_expiry w div 1000) + 3600), Uint256 chain,
        Address (IDENTITY_REGISTRY cfg), Address (address aw)] = Inr enc"
    by (simp add: authStruct_def)
  from aw ag ch cl hx lb e' le g ls rc tk dr show ?thesis by auto
qed

lemma trim_example_url: "trim ''https://example.com'' = ''https://example.com''"
  by (simp add: js_string_eval)

lemma clientAddressOf_req_client:
  "clientAddressOf req_client = Some ''0x00000000000000000000000000000000000000c1''"
  by (simp add: clientAddressOf_def req_client_def truthy_def js_string_eval)

lemma clientAddressOf_req_bad_client: "clientAddressOf req_bad_client = Some ''abc''"
  by (simp add: clientAddressOf_def req_bad_client_def truthy_def js_string_eval)

lemma extractUrl_demo_world:
  "extractUrl (SIMPLESCRAPER_API_KEY demo_config) (axios_post demo_world) u md ht =
     Ok [(''url'', u)]"
  by (simp add: extractUrl_def demo_config_def demo_world_def truthy_def)

lemma contract_demo_client:
  "feedbackAuthContractOf demo_ethers demo_config demo_world
     \<lparr>address = demo_address, privateKey = ''0x01''\<rparr>
     ''0x00000000000000000000000000000000000000c1'' 7 =
   Inr (replicate 224 0 @ replicate 65 1)"
  by (simp add: feedbackAuthContractOf_def demo_config_def demo_ethers_def demo_world_def
      authStruct_def demo_address_def Uint8Array_set_def new_Uint8Array_def
      replicate_add [symmetric])

lemma handler_demo_client:
  "scrapeHandler demo_ethers demo_config demo_world req_client =
     (\<lparr>status = 200, json = PayloadJson demo_payload\<rparr>,
      [ExtractUrlCalled ''https://example.com''])"
proof -
  have u: "url (body req_client) = Some ''https://example.com''"
    by (simp add: req_client_def)
  have n: "trim ''https://example.com'' \<noteq> []"
    by (simp add: trim_example_url)
  have a: "agentWallet demo_config = Some \<lparr>address = demo_address, privateKey = ''0x01''\<rparr>"
    and g: "NUMERIC_AGENT_ID demo_config = Some 7"
    by (simp_all add: demo_config_def)
  have c: "truthy (clientAddressOf req_client)"
    by (simp add: clientAddressOf_req_client truthy_def)
  have t: "now_taskId demo_world = 1700000000123"
    by (simp add: demo_world_def)
  have f: "feedbackAuthStep demo_ethers demo_config demo_world (trim ''https://example.com'')
      req_client =
      Inr (Some (hexlify demo_ethers (replicate 224 0 @ replicate 65 1)),
           Some \<lparr>agentId = demo_address,
                 taskId = taskIdOf demo_ethers ''https://example.com'' 1700000000123\<rparr>)"
    unfolding feedbackAuthStep_contract [OF a c g] clientAddressOf_req_client option.sel
      contract_demo_client trim_example_url t
    by simp
  show ?thesis
    unfolding handler_extract_ok [OF u n extractUrl_demo_world] f
    by (simp add: trim_example_url demo_payload_def)
qed

theorem feedbackAuthContract_layout_witness:
  "fst (scrapeHandler demo_ethers demo_config demo_world req_client) =
     \<lparr>status = 200, json = PayloadJson demo_payload\<rparr> \<and>
   (\<exists>blob. feedbackAuthContract demo_payload = Some (hexlify demo_ethers blob) \<and>
      length blob = 289 \<and>
      length (take 224 blob) = 224 \<and> length (drop 224 blob) = 65 \<and>
      signMessage demo_ethers \<lparr>address = demo_address, privateKey = ''0x01''\<rparr>
        (keccak256 demo_ethers (take 224 blob)) = Inr (drop 224 blob) \<and>
      verifyMessage demo_ethers (keccak256 demo_ethers (take 224 blob)) (drop 224 blob) =
        demo_address)"
proof -
  have r: "fst (scrapeHandler demo_ethers demo_config demo_world req_client) =
     \<lparr>status = 200, json = PayloadJson demo_payload\<rparr>"
    by (simp add: handler_demo_client)
  have h: "feedbackAuthContract demo_payload =
      Some (hexlify demo_ethers (replicate 224 0 @ replicate 65 1))"
    by (simp add: demo_payload_def)
  have e: "\<forall>vs bs. abi_encode demo_ethers vs = Inr bs \<longrightarrow> length bs = 32 * length vs"
    by (auto simp add: demo_ethers_def split: if_splits)
  have g: "\<forall>k m sg. signMessage demo_ethers k m = Inr sg \<longrightarrow>
      length sg = 65 \<and> verifyMessage demo_ethers m sg = address k"
    by (auto simp add: demo_ethers_def split: if_splits)
  from feedbackAuthContract_layout [OF r h e g] r h
  show ?thesis by (auto simp add: demo_config_def)
qed

lemma contract_throws:
  "CHAIN_ID cfg = Some chain \<Longrightarrow>
   abi_encode lib (authStruct cfg aw client agent (now_expiry w) chain) = Inl e \<or>
   (\<exists>enc. abi_encode lib (authStruct cfg aw client agent (now_expiry w) chain) = Inr enc \<and>
          signMessage lib aw (keccak256 lib enc) = Inl e) \<Longrightarrow>
   feedbackAuthContractOf lib cfg w aw client agent = Inl e"
  by (auto simp add: feedbackAuthContractOf_def)

text \<open>
  C3 (as amended). For a request whose service delivery succeeded and for which the
  contract blob is built (signer, client address and numeric agent id are present), an
  exception of the encoder or of the signing step is caught by the handler: the error is
  logged and the caller receives status 500 with the body
  \<open>{error: "Internal server error during scrape."}\<close>; neither the service result nor an
  attestation is returned. A malformed signer key makes \<open>new Wallet\<close> raise when the
  module is loaded.
\<close>

theorem signing_failure_answers_500:
  "url (body req) = Some v \<Longrightarrow> trim v \<noteq> [] \<Longrightarrow>
   extractUrl (SIMPLESCRAPER_API_KEY cfg) (axios_post w) (trim v)
     (markdown (body req)) (html (body req)) = Ok d \<Longrightarrow>
   agentWallet cfg = Some aw \<Longrightarrow> clientAddressOf req = Some client \<Longrightarrow> client \<noteq> [] \<Longrightarrow>
   NUMERIC_AGENT_ID cfg = Some agent \<Longrightarrow> CHAIN_ID cfg = Some chain \<Longrightarrow>
   abi_encode lib (authStruct cfg aw client agent (now_expiry w) chain) = Inl e \<or>
   (\<exists>enc. abi_encode lib (authStruct cfg aw client agent (now_expiry w) chain) = Inr enc \<and>
          signMessage lib aw (keccak256 lib enc) = Inl e) \<Longrightarrow>
   scrapeHandler lib cfg w req =
     (\<lparr>status = 500, json = ErrorJson ''Internal server error during scrape.'' None\<rparr>,
      [ExtractUrlCalled (trim v), ConsoleError e]) \<and>
   (truthy key \<and> newWallet lib (the key) = Inl e' \<longrightarrow> loadAgentWallet lib key = Inl e')"
proof -
  assume u: "url (body req) = Some v" and n: "trim v \<noteq> []"
    and x: "extractUrl (SIMPLESCRAPER_API_KEY cfg) (axios_post w) (trim v)
     (markdown (body req)) (html (body req)) = Ok d"
    and a: "agentWallet cfg = Some aw" and c: "clientAddressOf req = Some client"
    and cn: "client \<noteq> []"
    and g: "NUMERIC_AGENT_ID cfg = Some agent" and ch: "CHAIN_ID cfg = Some chain"
    and t: "abi_encode lib (authStruct cfg aw client agent (now_expiry w) chain) = Inl e \<or>
     (\<exists>enc. abi_encode lib (authStruct cfg aw client agent (now_expiry w) chain) = Inr enc \<and>
          signMessage lib aw (keccak256 lib enc) = Inl e)"
  from c cn have tc: "truthy (clientAddressOf req)" by (simp add: truthy_def)
  have "feedbackAuthContractOf lib cfg w aw client agent = Inl e"
    by (rule contract_throws [OF ch t])
  with c have "feedbackAuthStep lib cfg w (trim v) req = Inl e"
    by (simp add: feedbackAuthStep_contract [OF a tc g])
  then have "scrapeHandler lib cfg w req =
     (\<lparr>status = 500, json = ErrorJson ''Internal server error during scrape.'' None\<rparr>,
      [ExtractUrlCalled (trim v), ConsoleError e])"
    by (simp add: handler_extract_ok [OF u n x])
  then show ?thesis by (simp add: loadAgentWallet_def)
qed

theorem signing_failure_answers_500_witness:
  "scrapeHandler demo_ethers demo_config demo_world req_bad_client =
     (\<lparr>status = 500, json = ErrorJson ''Internal server error during scrape.'' None\<rparr>,
      [ExtractUrlCalled ''https://example.com'',
       ConsoleError (LibraryError ''invalid address'')]) \<and>
   loadAgentWallet demo_ethers (Some ''not-a-key'') = Inl (LibraryError ''invalid private key'')"
proof -
  have u: "url (body req_bad_client) = Some ''https://example.com''"
    by (simp add: req_bad_client_def)
  have n: "trim ''https://example.com'' \<noteq> []"
    by (simp add: trim_example_url)
  have a: "agentWallet demo_config = Some \<lparr>address = demo_address, privateKey = ''0x01''\<rparr>"
    and g: "NUMERIC_AGENT_ID demo_config = Some 7"
    and ch: "CHAIN_ID demo_config = Some 84532"
    by (simp_all add: demo_config_def)
  have cn: "''abc'' \<noteq> []" by simp
  have t: "abi_encode demo_ethers
      (authStruct demo_config \<lparr>address = demo_address, privateKey = ''0x01''\<rparr> ''abc'' 7
         (now_expiry demo_world) 84532) = Inl (LibraryError ''invalid address'') \<or>
     (\<exists>enc. abi_encode demo_ethers
      (authStruct demo_config \<lparr>address = demo_address, privateKey = ''0x01''\<rparr> ''abc'' 7
         (now_expiry demo_world) 84532) = Inr enc \<and>
          signMessage demo_ethers \<lparr>address = demo_address, privateKey = ''0x01''\<rparr>
            (keccak256 demo_ethers enc) = Inl (LibraryError ''invalid address''))"
    by (simp add: demo_ethers_def authStruct_def)
  have k: "truthy (Some ''not-a-key'') \<and>
      newWallet demo_ethers (the (Some ''not-a-key'')) = Inl (LibraryError ''invalid private key'')"
    by (simp add: truthy_def demo_ethers_def)
  from signing_failure_answers_500 [OF u n extractUrl_demo_world a
      clientAddressOf_req_bad_client cn g ch t,
      of "Some ''not-a-key''" "LibraryError ''invalid private key''"] k
  show ?thesis by (simp add: trim_example_url)
qed

text \<open>The claim as the specification states it: when the signing step throws, the
  attestation is left out and the service result is still returned with a success
  status. With a signer whose \<open>signMessage\<close> throws, a request that was scraped
  successfully is answered with status 500 and no service result.\<close>

theorem signing_failure_fails_request:
  "scrapeHandler ethers_sign_throws demo_config demo_world req_client =
     (\<lparr>status = 500, json = ErrorJson ''Internal server error during scrape.'' None\<rparr>,
      [ExtractUrlCalled ''https://example.com'',
       ConsoleError (LibraryError ''signing failed'')]) \<and>
   extractUrl (SIMPLESCRAPER_API_KEY demo_config) (axios_post demo_world)
     ''https://example.com'' None None = Ok [(''url'', ''https://example.com'')]"
proof -
  have u: "url (body req_client) = Some ''https://example.com''"
    by (simp add: req_client_def)
  have n: "trim ''https://example.com'' \<noteq> []"
    by (simp add: trim_example_url)
  have a: "agentWallet demo_config = Some \<lparr>address = demo_address, privateKey = ''0x01''\<rparr>"
    and g: "NUMERIC_AGENT_ID demo_config = Some 7"
    by (simp_all add: demo_config_def)
  have c: "truthy (clientAddressOf req_client)"
    by (simp add: clientAddressOf_req_client truthy_def)
  have b: "feedbackAuthContractOf ethers_sign_throws demo_config demo_world
     \<lparr>address = demo_address, privateKey = ''0x01''\<rparr>
     ''0x00000000000000000000000000000000000000c1'' 7 = Inl (LibraryError ''signing failed'')"
    by (simp add: feedbackAuthContractOf_def demo_config_def ethers_sign_throws_def
        demo_ethers_def authStruct_def demo_address_def)
  have f: "feedbackAuthStep ethers_sign_throws demo_config demo_world
      (trim ''https://example.com'') req_client = Inl (LibraryError ''signing failed'')"
    unfolding feedbackAuthStep_contract [OF a c g] clientAddressOf_req_client option.sel b
    by simp
  show ?thesis
    unfolding handler_extract_ok [OF u n extractUrl_demo_world] f
    by (simp add: trim_example_url extractUrl_demo_world)
qed

lemma truthy_clientAddressOf:
  "truthy (clientAddressOf req) \<longleftrightarrow>
     (\<exists>a. clientAddress (body req) = Some a \<and> trim a \<noteq> []) \<or>
     (\<exists>h. x_wallet_address req = Single h \<and> trim h \<noteq> [])"
  by (auto simp add: clientAddressOf_def truthy_def Let_def
      split: option.splits header_value.splits)

lemma feedbackAuthStep_present:
  "feedbackAuthStep lib cfg w u req = Inr (fac, fa) \<Longrightarrow>
   (fa \<noteq> None \<longleftrightarrow> agentWallet cfg \<noteq> None \<and> truthy (clientAddressOf req)) \<and>
   (fac \<noteq> None \<longleftrightarrow> fa \<noteq> None \<and> NUMERIC_AGENT_ID cfg \<noteq> None)"
  by (auto simp add: feedbackAuthStep_def split: option.splits if_splits sum.splits)

text \<open>
  C6 (as amended). On a successful delivery: if no signer key is configured, or no client
  identity that is non-empty after trimming was supplied (the body field, else the wallet
  header), the response is the plain service result with status 200 and no attestation
  field. With a signer and a client identity but no numeric agent id, the response
  carries the pair (agent identity, task reference) and no contract blob. With the numeric
  agent id as well, it carries the pair and the blob, provided that building the blob
  raises no exception. Hence every response that is a service result carries the
  attestation if and only if a signer is configured and a client identity was supplied,
  and carries the blob if and only if, in addition, a numeric agent id is configured.
\<close>

theorem attestation_gating:
  "url (body req) = Some v \<Longrightarrow> trim v \<noteq> [] \<Longrightarrow>
   extractUrl (SIMPLESCRAPER_API_KEY cfg) (axios_post w) (trim v)
     (markdown (body req)) (html (body req)) = Ok d \<Longrightarrow>
   (agentWallet cfg = None \<or> \<not> truthy (clientAddressOf req) \<longrightarrow>
      scrapeHandler lib cfg w req =
        (\<lparr>status = 200,
          json = PayloadJson \<lparr>data = d, feedbackAuthContract = None, feedbackAuth = None\<rparr>\<rparr>,
         [ExtractUrlCalled (trim v)])) \<and>
   (\<forall>aw. agentWallet cfg = Some aw \<and> truthy (clientAddressOf req) \<and>
         NUMERIC_AGENT_ID cfg = None \<longrightarrow>
      scrapeHandler lib cfg w req =
        (\<lparr>status = 200,
          json = PayloadJson \<lparr>data = d, feedbackAuthContract = None,
                   feedbackAuth = Some \<lparr>agentId = address aw,
                     taskId = taskIdOf lib (trim v) (now_taskId w)\<rparr>\<rparr>\<rparr>,
         [ExtractUrlCalled (trim v)])) \<and>
   (\<forall>aw agent blob. agentWallet cfg = Some aw \<and> truthy (clientAddressOf req) \<and>
         NUMERIC_AGENT_ID cfg = Some agent \<and>
         feedbackAuthContractOf lib cfg w aw (the (clientAddressOf req)) agent = Inr blob \<longrightarrow>
      scrapeHandler lib cfg w req =
        (\<lparr>status = 200,
          json = PayloadJson \<lparr>data = d, feedbackAuthContract = Some (hexlify lib blob),
                   feedbackAuth = Some \<lparr>agentId = address aw,
                     taskId = taskIdOf lib (trim v) (now_taskId w)\<rparr>\<rparr>\<rparr>,
         [ExtractUrlCalled (trim v)])) \<and>
   (\<forall>st p. fst (scrapeHandler lib cfg w req) = \<lparr>status = st, json = PayloadJson p\<rparr> \<longrightarrow>
      (feedbackAuth p \<noteq> None \<longleftrightarrow> agentWallet cfg \<noteq> None \<and> truthy (clientAddressOf req)) \<and>
      (feedbackAuthContract p \<noteq> None \<longleftrightarrow>
         feedbackAuth p \<noteq> None \<and> NUMERIC_AGENT_ID cfg \<noteq> None)) \<and>
   (truthy (clientAddressOf req) \<longleftrightarrow>
      (\<exists>a. clientAddress (body req) = Some a \<and> trim a \<noteq> []) \<or>
      (\<exists>h. x_wallet_address req = Single h \<and> trim h \<noteq> []))"
proof -
  assume u: "url (body req) = Some v" and n: "trim v \<noteq> []"
    and x: "extractUrl (SIMPLESCRAPER_API_KEY cfg) (axios_post w) (trim v)
     (markdown (body req)) (html (body req)) = Ok d"
  note h = handler_extract_ok [OF u n x, of lib]
  have none: "agentWallet cfg = None \<or> \<not> truthy (clientAddressOf req) \<longrightarrow>
      scrapeHandler lib cfg w req =
        (\<lparr>status = 200,
          json = PayloadJson \<lparr>data = d, feedbackAuthContract = None, feedbackAuth = None\<rparr>\<rparr>,
         [ExtractUrlCalled (trim v)])"
    unfolding h
    by (auto simp add: feedbackAuthStep_no_wallet feedbackAuthStep_no_client)
  have light: "\<forall>aw. agentWallet cfg = Some aw \<and> truthy (clientAddressOf req) \<and>
         NUMERIC_AGENT_ID cfg = None \<longrightarrow>
      scrapeHandler lib cfg w req =
        (\<lparr>status = 200,
          json = PayloadJson \<lparr>data = d, feedbackAuthContract = None,
                   feedbackAuth = Some \<lparr>agentId = address aw,
                     taskId = taskIdOf lib (trim v) (now_taskId w)\<rparr>\<rparr>\<rparr>,
         [ExtractUrlCalled (trim v)])"
    unfolding h
    by (auto simp add: feedbackAuthStep_light)
  have full: "\<forall>aw agent blob. agentWallet cfg = Some aw \<and> truthy (clientAddressOf req) \<and>
         NUMERIC_AGENT_ID cfg = Some agent \<and>
         feedbackAuthContractOf lib cfg w aw (the (clientAddressOf req)) agent = Inr blob \<longrightarrow>
      scrapeHandler lib cfg w req =
        (\<lparr>status = 200,
          json = PayloadJson \<lparr>data = d, feedbackAuthContract = Some (hexlify lib blob),
                   feedbackAuth = Some \<lparr>agentId = address aw,
                     taskId = taskIdOf lib (trim v) (now_taskId w)\<rparr>\<rparr>\<rparr>,
         [ExtractUrlCalled (trim v)])"
    unfolding h
    by (auto simp add: feedbackAuthStep_contract)
  have iff: "\<forall>st p. fst (scrapeHandler lib cfg w req) = \<lparr>status = st, json = PayloadJson p\<rparr> \<longrightarrow>
      (feedbackAuth p \<noteq> None \<longleftrightarrow> agentWallet cfg \<noteq> None \<and> truthy (clientAddressOf req)) \<and>
      (feedbackAuthContract p \<noteq> None \<longleftrightarrow>
         feedbackAuth p \<noteq> None \<and> NUMERIC_AGENT_ID cfg \<noteq> None)"
  proof (intro allI impI)
    fix st p
    assume r: "fst (scrapeHandler lib cfg w req) = \<lparr>status = st, json = PayloadJson p\<rparr>"
    from handler_payload_cases [OF r] u
    have "feedbackAuthStep lib cfg w (trim v) req = Inr (feedbackAuthContract p, feedbackAuth p)"
      by auto
    from feedbackAuthStep_present [OF this]
    show "(feedbackAuth p \<noteq> None \<longleftrightarrow> agentWallet cfg \<noteq> None \<and> truthy (clientAddressOf req)) \<and>
      (feedbackAuthContract p \<noteq> None \<longleftrightarrow>
         feedbackAuth p \<noteq> None \<and> NUMERIC_AGENT_ID cfg \<noteq> None)" .
  qed
  from none light full iff truthy_clientAddressOf [of req] show ?thesis by blast
qed

theorem attestation_gating_witness:
  "scrapeHandler demo_ethers config_no_signer demo_world req_client =
     (\<lparr>status = 200,
       json = PayloadJson \<lparr>data = [(''url'', ''https://example.com'')],
                feedbackAuthContract = None, feedbackAuth = None\<rparr>\<rparr>,
      [ExtractUrlCalled ''https://example.com'']) \<and>
   scrapeHandler demo_ethers config_no_agent_id demo_world req_client =
     (\<lparr>status = 200,
       json = PayloadJson \<lparr>data = [(''url'', ''https://example.com'')],
                feedbackAuthContract = None,
                feedbackAuth = Some \<lparr>agentId = demo_address,
                  taskId = taskIdOf demo_ethers ''https://example.com'' 1700000000123\<rparr>\<rparr>\<rparr>,
      [ExtractUrlCalled ''https://example.com''])"
proof -
  have u: "url (body req_client) = Some ''https://example.com''"
    by (simp add: req_client_def)
  have n: "trim ''https://example.com'' \<noteq> []"
    by (simp add: trim_example_url)
  have x1: "extractUrl (SIMPLESCRAPER_API_KEY config_no_signer) (axios_post demo_world)
      (trim ''https://example.com'') (markdown (body req_client)) (html (body req_client)) =
      Ok [(''url'', ''https://example.com'')]"
    using extractUrl_demo_world [of "''https://example.com''"]
    by (simp add: config_no_signer_def trim_example_url)
  have x2: "extractUrl (SIMPLESCRAPER_API_KEY config_no_agent_id) (axios_post demo_world)
      (trim ''https://example.com'') (markdown (body req_client)) (html (body req_client)) =
      Ok [(''url'', ''https://example.com'')]"
    using extractUrl_demo_world [of "''https://example.com''"]
    by (simp add: config_no_agent_id_def trim_example_url)
  have c: "truthy (clientAddressOf req_client)"
    by (simp add: clientAddressOf_req_client truthy_def)
  have a1: "agentWallet config_no_signer = None"
    by (simp add: config_no_signer_def)
  have a2: "agentWallet config_no_agent_id =
      Some \<lparr>address = demo_address, privateKey = ''0x01''\<rparr>"
    "NUMERIC_AGENT_ID config_no_agent_id = None"
    by (simp_all add: config_no_agent_id_def demo_config_def)
  have t: "now_taskId demo_world = 1700000000123"
    by (simp add: demo_world_def)
  from attestation_gating [OF u n x1, of demo_ethers] a1
  have one: "scrapeHandler demo_ethers config_no_signer demo_world req_client =
     (\<lparr>status = 200,
       json = PayloadJson \<lparr>data = [(''url'', ''https://example.com'')],
                feedbackAuthContract = None, feedbackAuth = None\<rparr>\<rparr>,
      [ExtractUrlCalled ''https://example.com''])"
    by (simp add: trim_example_url)
  from attestation_gating [OF u n x2, of demo_ethers] a2 c t
  have two: "scrapeHandler demo_ethers config_no_agent_id demo_world req_client =
     (\<lparr>status = 200,
       json = PayloadJson \<lparr>data = [(''url'', ''https://example.com'')],
                feedbackAuthContract = None,
                feedbackAuth = Some \<lparr>agentId = demo_address,
                  taskId = taskIdOf demo_ethers ''https://example.com'' 1700000000123\<rparr>\<rparr>\<rparr>,
      [ExtractUrlCalled ''https://example.com''])"
    by (simp add: trim_example_url)
  from one two show ?thesis by simp
qed

text \<open>The claim as the specification states it: an attestation is produced whenever a
  signer key is configured and a client identity was supplied. With both, a numeric agent
  id configured and a client identity that the encoder rejects, the request is scraped
  and then answered with status 500: the response has no attestation.\<close>

theorem attestation_absent_despite_signer_and_client:
  "agentWallet demo_config \<noteq> None \<and>
   clientAddressOf req_not_an_address = Some ''not-an-address'' \<and>
   scrapeHandler demo_ethers demo_config demo_world req_not_an_address =
     (\<lparr>status = 500, json = ErrorJson ''Internal server error during scrape.'' None\<rparr>,
      [ExtractUrlCalled ''https://example.com'',
       ConsoleError (LibraryError ''invalid address'')])"
proof -
  have u: "url (body req_not_an_address) = Some ''https://example.com''"
    by (simp add: req_not_an_address_def)
  have n: "trim ''https://example.com'' \<noteq> []"
    by (simp add: trim_example_url)
  have a: "agentWallet demo_config = Some \<lparr>address = demo_address, privateKey = ''0x01''\<rparr>"
    and g: "NUMERIC_AGENT_ID demo_config = Some 7"
    by (simp_all add: demo_config_def)
  have ca: "clientAddressOf req_not_an_address = Some ''not-an-address''"
    by (simp add: clientAddressOf_def req_not_an_address_def truthy_def js_string_eval)
  then have c: "truthy (clientAddressOf req_not_an_address)"
    by (simp add: truthy_def)
  have b: "feedbackAuthContractOf demo_ethers demo_config demo_world
     \<lparr>address = demo_address, privateKey = ''0x01''\<rparr> ''not-an-address'' 7 =
     Inl (LibraryError ''invalid address'')"
    by (simp add: feedbackAuthContractOf_def demo_config_def demo_ethers_def authStruct_def)
  have f: "feedbackAuthStep demo_ethers demo_config demo_world
      (trim ''https://example.com'') req_not_an_address =
      Inl (LibraryError ''invalid address'')"
    unfolding feedbackAuthStep_contract [OF a c g] ca option.sel b
    by simp
  have "scrapeHandler demo_ethers demo_config demo_world req_not_an_address =
     (\<lparr>status = 500, json = ErrorJson ''Internal server error during scrape.'' None\<rparr>,
      [ExtractUrlCalled ''https://example.com'',
       ConsoleError (LibraryError ''invalid address'')])"
    unfolding handler_extract_ok [OF u n extractUrl_demo_world] f
    by (simp add: trim_example_url)
  with a ca show ?thesis by simp
qed

end
